theory Spec2Isabelle
  imports Complex_Main "HOL-Library.AList" "HOL-Library.Multiset" "HOL-Library.Product_Lexorder"
begin

section \<open>Data model\<close>

text \<open>
  The transaction controller of the expense tracker, embedded function by function.
  The record store (a MongoDB collection reached through Mongoose) is a list of
  documents in insertion order; every handler takes the store and, when it writes,
  returns the new one.

  An \<open>ObjectId\<close> is represented by its \<open>toString()\<close> rendering, so the comparison
  \<open>ownerId !== requesterId\<close> of the two renderings is inequality of \<open>objectId\<close>s.
  Instants (\<open>Date\<close> values) are integers, the milliseconds since the epoch; amounts are
  exact integers (IEEE rounding of \<open>number\<close> is not modelled).
\<close>

type_synonym objectId = string

datatype kind = Income | Expense

text \<open>The two literals of \<open>type: "income" | "expense"\<close>.\<close>

fun kindName :: "kind \<Rightarrow> string" where
  "kindName Income = ''income''"
| "kindName Expense = ''expense''"

text \<open>
  \<open>ITransaction\<close> with the fields Mongoose adds: \<open>_id\<close> (here \<open>tx_id\<close>) and, by
  \<open>timestamps: true\<close>, \<open>createdAt\<close> and \<open>updatedAt\<close>. \<open>category\<close> has no \<open>required\<close>
  and may be unset. The field \<open>type\<close> is named \<open>ttype\<close>.
\<close>

record transaction =
  tx_id :: objectId
  userId :: objectId
  title :: string
  amount :: int
  ttype :: kind
  category :: "string option"
  date :: int
  createdAt :: int
  updatedAt :: int

type_synonym store = "transaction list"

text \<open>The replies of the handlers that are not a 2xx: status and message.\<close>

datatype error =
    BadRequest string
  | Forbidden string
  | NotFound string
  | ServerError string

fun status :: "error \<Rightarrow> nat" where
  "status (BadRequest m) = 400"
| "status (Forbidden m) = 403"
| "status (NotFound m) = 404"
| "status (ServerError m) = 500"

text \<open>
  A \<open>Date\<close> object built by \<open>new Date(v)\<close> from a request value: the Invalid Date, or
  a valid instant. Mongoose refuses to cast the Invalid Date to a \<open>Date\<close> path, in a
  document as in a query filter: the operation throws.
\<close>

datatype jsdate = InvalidDate | Instant int

text \<open>
  The route parameter \<open>:id\<close> as \<open>mongoose.isValidObjectId\<close> classifies it: a string that
  is no ObjectId, or a string that is one, given by the ObjectId \<open>findById\<close> casts it to.
\<close>

datatype idParam = Malformed string | WellFormed objectId

section \<open>Store operations\<close>

text \<open>\<open>Transaction.findById(id)\<close>: the document with that \<open>_id\<close>, or null.\<close>

definition findById :: "store \<Rightarrow> objectId \<Rightarrow> transaction option" where
  "findById s i = find (\<lambda>t. tx_id t = i) s"

text \<open>\<open>transaction.deleteOne()\<close>: removes the one document with that \<open>_id\<close>.\<close>

fun deleteOne :: "objectId \<Rightarrow> store \<Rightarrow> store" where
  "deleteOne i [] = []"
| "deleteOne i (t # ts) = (if tx_id t = i then ts else t # deleteOne i ts)"

text \<open>
  The body of a \<open>PUT\<close>, for the bodies that are a partial \<open>ITransaction\<close>: a flat
  object in which each declared field is present, with a value of its declared type, or
  absent. \<open>findByIdAndUpdate(id, updates, { new: true })\<close> sets every present field on
  the document with that \<open>_id\<close>, leaves the others, and (by \<open>timestamps: true\<close>) sets
  \<open>updatedAt\<close> to the time of the write. It runs no schema validator. The handler
  passes \<open>req.body\<close> on as it is; bodies that carry update operators (\<open>$set\<close>,
  \<open>$unset\<close>, ...) or values that the schema cannot cast are not covered here.
\<close>

record updates =
  u_userId :: "objectId option"
  u_title :: "string option"
  u_amount :: "int option"
  u_ttype :: "kind option"
  u_category :: "string option"
  u_date :: "int option"

definition orElse :: "'a option \<Rightarrow> 'a \<Rightarrow> 'a" where
  "orElse x d = (case x of None \<Rightarrow> d | Some v \<Rightarrow> v)"

definition applyUpdates :: "int \<Rightarrow> updates \<Rightarrow> transaction \<Rightarrow> transaction" where
  "applyUpdates now u t =
     t\<lparr> userId := orElse (u_userId u) (userId t),
        title := orElse (u_title u) (title t),
        amount := orElse (u_amount u) (amount t),
        ttype := orElse (u_ttype u) (ttype t),
        category := (case u_category u of None \<Rightarrow> category t | Some c \<Rightarrow> Some c),
        date := orElse (u_date u) (date t),
        updatedAt := now \<rparr>"

fun findByIdAndUpdate :: "int \<Rightarrow> objectId \<Rightarrow> updates \<Rightarrow> store \<Rightarrow> store" where
  "findByIdAndUpdate now i u [] = []"
| "findByIdAndUpdate now i u (t # ts) =
     (if tx_id t = i then applyUpdates now u t # ts
      else t # findByIdAndUpdate now i u ts)"

section \<open>Single-record handlers\<close>

text \<open>
  \<open>getTransactionById\<close>, \<open>updateTransaction\<close> and \<open>deleteTransaction\<close> open with the
  same three tests, in this order: the shape of the id (400), the existence of the
  document (404), the ownership (403). The caller \<open>uid\<close> is the id of the user that the
  \<open>protect\<close> middleware stored in \<open>req.user\<close>.
\<close>

definition getTransactionById :: "store \<Rightarrow> objectId \<Rightarrow> idParam \<Rightarrow> error + transaction" where
  "getTransactionById s uid idp =
     (case idp of
        Malformed x \<Rightarrow> Inl (BadRequest ''Invalid id'')
      | WellFormed i \<Rightarrow>
          (case findById s i of
             None \<Rightarrow> Inl (NotFound ''Transaction not found'')
           | Some transaction \<Rightarrow>
               if userId transaction \<noteq> uid then Inl (Forbidden ''Not authorized'')
               else Inr transaction))"

text \<open>The reply is the updated document (\<open>new: true\<close>); the second component is the store.\<close>

definition updateTransaction ::
  "int \<Rightarrow> store \<Rightarrow> objectId \<Rightarrow> idParam \<Rightarrow> updates \<Rightarrow> (error + transaction option) \<times> store" where
  "updateTransaction now s uid idp body =
     (case idp of
        Malformed x \<Rightarrow> (Inl (BadRequest ''Invalid id''), s)
      | WellFormed i \<Rightarrow>
          (case findById s i of
             None \<Rightarrow> (Inl (NotFound ''Transaction not found''), s)
           | Some existing \<Rightarrow>
               if userId existing \<noteq> uid then (Inl (Forbidden ''Not authorized''), s)
               else (let s' = findByIdAndUpdate now i body s
                     in (Inr (findById s' i), s'))))"

definition deleteTransaction ::
  "store \<Rightarrow> objectId \<Rightarrow> idParam \<Rightarrow> (error + string) \<times> store" where
  "deleteTransaction s uid idp =
     (case idp of
        Malformed x \<Rightarrow> (Inl (BadRequest ''Invalid id''), s)
      | WellFormed i \<Rightarrow>
          (case findById s i of
             None \<Rightarrow> (Inl (NotFound ''Transaction not found''), s)
           | Some transaction \<Rightarrow>
               if userId transaction \<noteq> uid then (Inl (Forbidden ''Not authorized''), s)
               else (Inr ''Transaction deleted'', deleteOne i s)))"

section \<open>Creating a transaction\<close>

text \<open>
  The numbers the handlers compute with are integers or \<open>NaN\<close> (the doubles beyond
  \<open>2^53\<close>, the fractions and the infinities are not modelled).
\<close>

datatype jsnum = NaN | Num int

text \<open>
  A text field of a JSON body (\<open>title\<close>, \<open>type\<close>, \<open>category\<close>), by what the handler
  and the schema ask of it. \<open>NoValue\<close>: \<open>undefined\<close> or \<open>null\<close>, and for \<open>title\<close> and
  \<open>type\<close> any other falsy value that is no string (\<open>false\<close>, \<open>0\<close>). \<open>Text v\<close>: a
  value that the schema's \<open>String\<close> cast turns into \<open>v\<close>; a JSON string is cast to
  itself, and is falsy exactly when it is empty. \<open>Uncastable\<close>: a truthy value that the
  cast refuses (an object, an array).
\<close>

datatype textField = NoValue | Text string | Uncastable

text \<open>\<open>!!v\<close> for a text field.\<close>

fun truthy :: "textField \<Rightarrow> bool" where
  "truthy NoValue = False"
| "truthy (Text v) = (v \<noteq> [])"
| "truthy Uncastable = True"

text \<open>
  The body of a \<open>POST\<close>. \<open>c_amount\<close> is \<open>None\<close> when \<open>amount == null\<close> and
  \<open>Number(amount)\<close> otherwise. \<open>c_date\<close> is \<open>None\<close> when \<open>date\<close> is falsy (absent,
  \<open>null\<close>, empty, \<open>0\<close>, \<open>false\<close>) and \<open>new Date(date)\<close> otherwise.
\<close>

record createBody =
  c_title :: textField
  c_amount :: "jsnum option"
  c_type :: textField
  c_category :: textField
  c_date :: "jsdate option"

text \<open>\<open>!x\<close> on an optional string: absent, or the empty string.\<close>

definition falsy :: "string option \<Rightarrow> bool" where
  "falsy x = (case x of None \<Rightarrow> True | Some v \<Rightarrow> v = [])"

text \<open>
  The schema's \<open>type: {type: String, enum: ["income", "expense"], required: true}\<close>:
  any other string makes \<open>Transaction.create\<close> throw a validation error.
\<close>

definition castKind :: "string \<Rightarrow> kind option" where
  "castKind v = (if v = ''income'' then Some Income
                 else if v = ''expense'' then Some Expense
                 else None)"

text \<open>
  What \<open>Transaction.create\<close> makes of the document the handler builds: the new
  document, or \<open>None\<close> when a cast or a validator of the schema throws. \<open>title\<close> and
  \<open>category\<close> are cast to strings, \<open>amount\<close> to a number (\<open>NaN\<close> is refused),
  \<open>type\<close> to a string of the enum, \<open>date\<close> to a date (the Invalid Date is refused);
  a missing \<open>date\<close> takes the default \<open>Date.now\<close>, a missing \<open>category\<close> stays unset.
  \<open>newId\<close> is the \<open>_id\<close> the store assigns and \<open>now\<close> the clock (the default of
  \<open>date\<close> and the two timestamps).
\<close>

definition createDocument ::
  "objectId \<Rightarrow> int \<Rightarrow> objectId \<Rightarrow> createBody \<Rightarrow> transaction option" where
  "createDocument newId now uid body =
     (case (c_title body, c_amount body, c_type body) of
        (Text ti, Some (Num a), Text ty) \<Rightarrow>
          (case castKind ty of
             None \<Rightarrow> None
           | Some k \<Rightarrow>
               if c_category body = Uncastable \<or> c_date body = Some InvalidDate then None
               else Some \<lparr> tx_id = newId,
                           userId = uid,
                           title = ti,
                           amount = a,
                           ttype = k,
                           category = (case c_category body of Text c \<Rightarrow> Some c | _ \<Rightarrow> None),
                           date = (case c_date body of Some (Instant d) \<Rightarrow> d | _ \<Rightarrow> now),
                           createdAt = now,
                           updatedAt = now \<rparr>)
      | _ \<Rightarrow> None)"

text \<open>
  \<open>createTransaction\<close>: the guard \<open>!title || amount == null || !type\<close> answers 400;
  a success is answered with status 201 and the document; an exception of
  \<open>Transaction.create\<close> is caught and answered 500.
\<close>

definition createTransaction ::
  "objectId \<Rightarrow> int \<Rightarrow> store \<Rightarrow> objectId \<Rightarrow> createBody \<Rightarrow> (error + nat \<times> transaction) \<times> store" where
  "createTransaction newId now s uid body =
     (if \<not> truthy (c_title body) \<or> c_amount body = None \<or> \<not> truthy (c_type body)
      then (Inl (BadRequest ''title, amount and type are required''), s)
      else
        (case createDocument newId now uid body of
           None \<Rightarrow> (Inl (ServerError ''Server error''), s)
         | Some transaction \<Rightarrow> (Inr (201, transaction), s @ [transaction])))"

section \<open>JavaScript numbers and \<open>parseInt\<close>\<close>

text \<open>
  Arithmetic and \<open>Math.max\<close> on \<open>jsnum\<close> return \<open>NaN\<close> as soon as an operand is
  \<open>NaN\<close>.
\<close>

fun Math_max :: "jsnum \<Rightarrow> jsnum \<Rightarrow> jsnum" where
  "Math_max (Num a) (Num b) = Num (max a b)"
| "Math_max a b = NaN"

fun js_minus :: "jsnum \<Rightarrow> jsnum \<Rightarrow> jsnum" where
  "js_minus (Num a) (Num b) = Num (a - b)"
| "js_minus a b = NaN"

fun js_times :: "jsnum \<Rightarrow> jsnum \<Rightarrow> jsnum" where
  "js_times (Num a) (Num b) = Num (a * b)"
| "js_times a b = NaN"

text \<open>\<open>Math.ceil(total / lim)\<close>; the handler calls it with \<open>lim\<close> at least 1 or \<open>NaN\<close>.\<close>

fun Math_ceil_div :: "nat \<Rightarrow> jsnum \<Rightarrow> jsnum" where
  "Math_ceil_div n (Num l) = Num \<lceil>real n / real_of_int l\<rceil>"
| "Math_ceil_div n NaN = NaN"

text \<open>
  \<open>parseInt(str, 10)\<close>: leading white space is dropped, one sign is read, then the
  longest run of decimal digits; with no digit the result is \<open>NaN\<close>. Whatever follows
  the digits is ignored. Query strings are taken to be ASCII.
\<close>

definition isWhiteSpace :: "char \<Rightarrow> bool" where
  "isWhiteSpace c = ((of_char c :: nat) \<in> {9, 10, 11, 12, 13, 32})"

definition isDigit :: "char \<Rightarrow> bool" where
  "isDigit c = (48 \<le> (of_char c :: nat) \<and> (of_char c :: nat) \<le> 57)"

definition digitsValue :: "string \<Rightarrow> int" where
  "digitsValue z = foldl (\<lambda>acc c. 10 * acc + (int (of_char c) - 48)) 0 z"

definition parseInt :: "string \<Rightarrow> jsnum" where
  "parseInt str =
     (let S = dropWhile isWhiteSpace str;
          sign = (case S of c # r \<Rightarrow> if c = CHR ''-'' then - 1 else 1 | [] \<Rightarrow> 1);
          S' = (case S of c # r \<Rightarrow> if c = CHR ''+'' \<or> c = CHR ''-'' then r else S | [] \<Rightarrow> S);
          Z = takeWhile isDigit S'
      in if Z = [] then NaN else Num (sign * digitsValue Z))"

section \<open>Listing\<close>

text \<open>
  The query of \<open>GET /transactions\<close>. Every parameter is a string or absent. \<open>page\<close>,
  \<open>limit\<close>, \<open>type\<close> and \<open>category\<close> are the raw strings; \<open>q_startDate\<close> and
  \<open>q_endDate\<close> are \<open>None\<close> when the parameter is absent or empty and
  \<open>new Date(...)\<close> of it otherwise.
\<close>

record query =
  q_page :: "string option"
  q_limit :: "string option"
  q_startDate :: "jsdate option"
  q_endDate :: "jsdate option"
  q_category :: "string option"
  q_type :: "string option"

text \<open>
  \<open>const { page = "1", limit = "20" } = req.query\<close>: the default stands in for an
  absent parameter only. Then \<open>Math.max(1, parseInt(page, 10))\<close>.
\<close>

definition pageNum :: "query \<Rightarrow> jsnum" where
  "pageNum q = Math_max (Num 1) (parseInt (orElse (q_page q) ''1''))"

definition lim :: "query \<Rightarrow> jsnum" where
  "lim q = Math_max (Num 1) (parseInt (orElse (q_limit q) ''20''))"

text \<open>
  The filter object: always the owner; \<open>type\<close> and \<open>category\<close> when the parameter is
  truthy; \<open>date.$gte\<close> and \<open>date.$lte\<close> when the bound is given.
\<close>

record txFilter =
  f_userId :: objectId
  f_type :: "string option"
  f_category :: "string option"
  f_gte :: "jsdate option"
  f_lte :: "jsdate option"

definition filterOf :: "objectId \<Rightarrow> query \<Rightarrow> txFilter" where
  "filterOf uid q =
     \<lparr> f_userId = uid,
       f_type = (if falsy (q_type q) then None else q_type q),
       f_category = (if falsy (q_category q) then None else q_category q),
       f_gte = q_startDate q,
       f_lte = q_endDate q \<rparr>"

text \<open>
  Mongoose casts the filter against the schema before it queries: a bound that is the
  Invalid Date makes the cast, and with it the query, throw.
\<close>

definition castable :: "txFilter \<Rightarrow> bool" where
  "castable f \<longleftrightarrow> f_gte f \<noteq> Some InvalidDate \<and> f_lte f \<noteq> Some InvalidDate"

text \<open>A document matches a filter when it meets every condition the filter carries.\<close>

definition matches :: "txFilter \<Rightarrow> transaction \<Rightarrow> bool" where
  "matches f t \<longleftrightarrow>
     userId t = f_userId f
     \<and> (case f_type f of None \<Rightarrow> True | Some k \<Rightarrow> kindName (ttype t) = k)
     \<and> (case f_category f of None \<Rightarrow> True | Some c \<Rightarrow> category t = Some c)
     \<and> (case f_gte f of Some (Instant a) \<Rightarrow> a \<le> date t | _ \<Rightarrow> True)
     \<and> (case f_lte f of Some (Instant b) \<Rightarrow> date t \<le> b | _ \<Rightarrow> True)"

text \<open>\<open>Transaction.countDocuments(filter)\<close>: the count, or \<open>None\<close> when it throws.\<close>

definition countDocuments :: "txFilter \<Rightarrow> store \<Rightarrow> nat option" where
  "countDocuments f s = (if castable f then Some (length (filter (matches f) s)) else None)"

definition find_docs :: "txFilter \<Rightarrow> store \<Rightarrow> transaction list" where
  "find_docs f s = filter (matches f) s"

text \<open>
  \<open>.sort({ date: -1 })\<close>: newest first. The sort key is the date alone, so the order
  of documents with equal dates is the order in which the store reads them for this
  query. That order is the parameter \<open>scan\<close> of the handler: \<open>scan s\<close> lists the
  documents of \<open>s\<close> as the store reads them, and the sort keeps documents with equal
  dates in that order. Nothing makes two queries read the store in the same order.
\<close>

definition sort_date_desc :: "transaction list \<Rightarrow> transaction list" where
  "sort_date_desc xs = sort_key (\<lambda>t. - date t) xs"

text \<open>
  \<open>.skip(n).limit(l)\<close>. A negative skip is refused by the store and a limit of 0 means
  no limit; the handler produces neither. What the store does with a skip or a limit
  that is \<open>NaN\<close> is not fixed by this repository: it is the parameter \<open>nanFind\<close>, \<open>None\<close>
  when the store raises, \<open>Some xs\<close> when it answers \<open>xs\<close>.
\<close>

fun skip_limit ::
  "transaction list option \<Rightarrow> jsnum \<Rightarrow> jsnum \<Rightarrow> transaction list \<Rightarrow> transaction list option" where
  "skip_limit nanFind (Num n) (Num l) xs =
     (if n < 0 then None
      else if l = 0 then Some (drop (nat n) xs)
      else Some (take (nat \<bar>l\<bar>) (drop (nat n) xs)))"
| "skip_limit nanFind n l xs = nanFind"

record listing =
  transactions :: "transaction list"
  total :: nat
  page :: jsnum
  pages :: jsnum

text \<open>
  \<open>getTransactions\<close>: the count first, then the page; an exception of either is caught
  and answered 500.
\<close>

definition getTransactions ::
  "(store \<Rightarrow> store) \<Rightarrow> transaction list option \<Rightarrow> store \<Rightarrow> objectId \<Rightarrow> query
     \<Rightarrow> error + listing" where
  "getTransactions scan nanFind s uid q =
     (let f = filterOf uid q
      in case countDocuments f s of
           None \<Rightarrow> Inl (ServerError ''Server error'')
         | Some n \<Rightarrow>
             (case skip_limit nanFind (js_times (js_minus (pageNum q) (Num 1)) (lim q)) (lim q)
                     (sort_date_desc (find_docs f (scan s))) of
                None \<Rightarrow> Inl (ServerError ''Server error'')
              | Some ts \<Rightarrow>
                  Inr \<lparr> transactions = ts, total = n, page = pageNum q,
                        pages = Math_ceil_div n (lim q) \<rparr>))"


text \<open>
  The filter as the specification words it: the owner's documents, narrowed by kind and
  by category when the parameter is given and not empty, and by the window when a bound
  is given: \<open>date >= start\<close>, \<open>date <= end\<close>.
\<close>

abbreviation wanted ::
  "objectId \<Rightarrow> string option \<Rightarrow> string option \<Rightarrow> jsdate option \<Rightarrow> jsdate option
     \<Rightarrow> transaction \<Rightarrow> bool" where
  "wanted uid ty cg sd ed t \<equiv>
     userId t = uid
     \<and> (ty = None \<or> ty = Some [] \<or> ty = Some (kindName (ttype t)))
     \<and> (cg = None \<or> cg = Some [] \<or> cg = category t)
     \<and> (case sd of Some (Instant a) \<Rightarrow> a \<le> date t | _ \<Rightarrow> True)
     \<and> (case ed of Some (Instant b) \<Rightarrow> date t \<le> b | _ \<Rightarrow> True)"

section \<open>Calendar\<close>

text \<open>
  The date functions of the JavaScript runtime and of the store's \<open>$year\<close> and
  \<open>$month\<close>, on instants in milliseconds since the epoch. The server's local time is
  taken to be UTC. \<open>civil_from_days\<close> gives year, month (1 to 12) and day of month of a
  day number in the proleptic Gregorian calendar, \<open>days_from_civil\<close> the day number of a
  date.
\<close>

definition msPerDay :: int where
  "msPerDay = 86400000"

definition Day :: "int \<Rightarrow> int" where
  "Day t = t div msPerDay"

definition TimeWithinDay :: "int \<Rightarrow> int" where
  "TimeWithinDay t = t mod msPerDay"

definition civil_from_days :: "int \<Rightarrow> int \<times> int \<times> int" where
  "civil_from_days z0 =
     (let z = z0 + 719468;
          era = z div 146097;
          doe = z - era * 146097;
          yoe = (doe - doe div 1460 + doe div 36524 - doe div 146096) div 365;
          doy = doe - (365 * yoe + yoe div 4 - yoe div 100);
          mp = (5 * doy + 2) div 153;
          d = doy - (153 * mp + 2) div 5 + 1;
          m = (if mp < 10 then mp + 3 else mp - 9);
          y = yoe + era * 400 + (if m \<le> 2 then 1 else 0)
      in (y, m, d))"

definition days_from_civil :: "int \<Rightarrow> int \<Rightarrow> int \<Rightarrow> int" where
  "days_from_civil y0 m d =
     (let y = (if m \<le> 2 then y0 - 1 else y0);
          era = y div 400;
          yoe = y - era * 400;
          doy = (153 * (if m > 2 then m - 3 else m + 9) + 2) div 5 + d - 1;
          doe = yoe * 365 + yoe div 4 - yoe div 100 + doy
      in era * 146097 + doe - 719468)"

definition YearFromTime :: "int \<Rightarrow> int" where
  "YearFromTime t = fst (civil_from_days (Day t))"

text \<open>\<open>getMonth()\<close>: 0 for January to 11 for December.\<close>

definition MonthFromTime :: "int \<Rightarrow> int" where
  "MonthFromTime t = fst (snd (civil_from_days (Day t))) - 1"

definition DateFromTime :: "int \<Rightarrow> int" where
  "DateFromTime t = snd (snd (civil_from_days (Day t)))"

text \<open>
  \<open>MakeDay(year, month, date)\<close>: months outside 0..11 carry into the year, and a day of
  month beyond the month's end runs into the next month.
\<close>

definition MakeDay :: "int \<Rightarrow> int \<Rightarrow> int \<Rightarrow> int" where
  "MakeDay year month dt =
     days_from_civil (year + month div 12) (month mod 12 + 1) 1 + dt - 1"

definition MakeDate :: "int \<Rightarrow> int \<Rightarrow> int" where
  "MakeDate day time = day * msPerDay + time"

text \<open>\<open>d.setMonth(m)\<close> and \<open>d.setHours(0, 0, 0, 0)\<close>, as functions of the instant.\<close>

definition setMonth :: "int \<Rightarrow> int \<Rightarrow> int" where
  "setMonth t m = MakeDate (MakeDay (YearFromTime t) m (DateFromTime t)) (TimeWithinDay t)"

definition setHours0 :: "int \<Rightarrow> int" where
  "setHours0 t = MakeDate (Day t) 0"

text \<open>\<open>toLocaleString("default", { month: "short" })\<close> in an English locale.\<close>

definition monthShort :: "int \<Rightarrow> string" where
  "monthShort m =
     [''Jan'', ''Feb'', ''Mar'', ''Apr'', ''May'', ''Jun'',
      ''Jul'', ''Aug'', ''Sep'', ''Oct'', ''Nov'', ''Dec''] ! nat m"

section \<open>Aggregation\<close>

text \<open>
  The \<open>$group\<close> stage: one output row per distinct key, holding the accumulator folded
  over the documents of the group. A row is created, from \<open>init\<close>, by the first document
  of its group; rows are kept in the order their groups first appear.
\<close>

definition group_step ::
  "('d \<Rightarrow> 'k) \<Rightarrow> 'a \<Rightarrow> ('a \<Rightarrow> 'd \<Rightarrow> 'a) \<Rightarrow> ('k \<times> 'a) list \<Rightarrow> 'd \<Rightarrow> ('k \<times> 'a) list" where
  "group_step key init acc rows d =
     AList.update (key d)
       (acc (case map_of rows (key d) of None \<Rightarrow> init | Some a \<Rightarrow> a) d) rows"

definition group_by ::
  "('d \<Rightarrow> 'k) \<Rightarrow> 'a \<Rightarrow> ('a \<Rightarrow> 'd \<Rightarrow> 'a) \<Rightarrow> 'd list \<Rightarrow> ('k \<times> 'a) list" where
  "group_by key init acc docs = foldl (group_step key init acc) [] docs"

record monthBucket =
  income :: int
  expense :: int

text \<open>
  The start of the monthly window of \<open>getSummary\<close>:
  \<open>startDate.setMonth(startDate.getMonth() - 5); startDate.setHours(0, 0, 0, 0)\<close>
  on \<open>startDate = new Date()\<close>.
\<close>

definition startDate :: "int \<Rightarrow> int" where
  "startDate now = setHours0 (setMonth now (MonthFromTime now - 5))"

text \<open>The \<open>$project\<close> stage of the monthly pipeline.\<close>

record projected =
  p_amount :: int
  p_type :: kind
  p_year :: int
  p_month :: int

definition project :: "transaction \<Rightarrow> projected" where
  "project t = \<lparr> p_amount = amount t, p_type = ttype t,
                 p_year = YearFromTime (date t), p_month = MonthFromTime (date t) + 1 \<rparr>"

text \<open>
  The accumulators of the monthly \<open>$group\<close>:
  \<open>income: {$sum: {$cond: [{$eq: ["$type", "income"]}, "$amount", 0]}}\<close> and the same
  for \<open>expense\<close>.
\<close>

definition monthlyAcc :: "monthBucket \<Rightarrow> projected \<Rightarrow> monthBucket" where
  "monthlyAcc b d =
     \<lparr> income = income b + (if p_type d = Income then p_amount d else 0),
       expense = expense b + (if p_type d = Expense then p_amount d else 0) \<rparr>"

text \<open>
  The three pipelines of \<open>getSummary\<close>. \<open>monthly\<close>: match owner and window, project,
  group by (year, month), sort ascending by year, then month. \<open>category\<close>: match owner,
  group by category, sort by total descending, keep 10. \<open>totals\<close>: match owner, group
  by type.
\<close>

definition monthlyPipeline :: "int \<Rightarrow> store \<Rightarrow> objectId \<Rightarrow> ((int \<times> int) \<times> monthBucket) list" where
  "monthlyPipeline start s uid =
     sort_key fst
       (group_by (\<lambda>d. (p_year d, p_month d)) \<lparr> income = 0, expense = 0 \<rparr> monthlyAcc
          (map project (filter (\<lambda>t. userId t = uid \<and> start \<le> date t) s)))"

definition categoryPipeline :: "store \<Rightarrow> objectId \<Rightarrow> (string option \<times> int) list" where
  "categoryPipeline s uid =
     take 10 (sort_key (\<lambda>g. - snd g)
       (group_by category 0 (\<lambda>a t. a + amount t) (filter (\<lambda>t. userId t = uid) s)))"

definition totalsPipeline :: "store \<Rightarrow> objectId \<Rightarrow> (kind \<times> int) list" where
  "totalsPipeline s uid =
     group_by ttype 0 (\<lambda>a t. a + amount t) (filter (\<lambda>t. userId t = uid) s)"

text \<open>\<open>totals.find((t) => t._id === k)?.total || 0\<close>.\<close>

definition totalOf :: "kind \<Rightarrow> (kind \<times> int) list \<Rightarrow> int" where
  "totalOf k totals =
     (case find (\<lambda>t. fst t = k) totals of
        None \<Rightarrow> 0
      | Some t \<Rightarrow> if snd t = 0 then 0 else snd t)"

record summary =
  s_monthly :: "((int \<times> int) \<times> monthBucket) list"
  s_category :: "(string option \<times> int) list"
  totalIncome :: int
  totalExpense :: int

definition getSummary :: "int \<Rightarrow> store \<Rightarrow> objectId \<Rightarrow> summary" where
  "getSummary now s uid =
     (let totals = totalsPipeline s uid
      in \<lparr> s_monthly = monthlyPipeline (startDate now) s uid,
           s_category = categoryPipeline s uid,
           totalIncome = totalOf Income totals,
           totalExpense = totalOf Expense totals \<rparr>)"

section \<open>Analytics\<close>

text \<open>
  The two \<open>forEach\<close> loops of \<open>getAnalytics\<close>, one step per document.
  First loop: \<open>month\<close> is the short month name of the date; a missing bucket is created
  as \<open>{income: 0, expense: 0}\<close>; then \<open>monthly[month][t.type] += t.amount\<close>. The
  object \<open>monthly\<close> is an association list in insertion order (no month name is the
  name of a member of \<open>Object.prototype\<close>).
\<close>

definition monthName :: "transaction \<Rightarrow> string" where
  "monthName t = monthShort (MonthFromTime (date t))"

definition monthlyStep :: "(string \<times> monthBucket) list \<Rightarrow> transaction \<Rightarrow> (string \<times> monthBucket) list" where
  "monthlyStep monthly t =
     (let month = monthName t;
          b = (case map_of monthly month of
                 None \<Rightarrow> \<lparr> income = 0, expense = 0 \<rparr>
               | Some b \<Rightarrow> b)
      in AList.update month
           (case ttype t of
              Income \<Rightarrow> b \<lparr> income := income b + amount t \<rparr>
            | Expense \<Rightarrow> b \<lparr> expense := expense b + amount t \<rparr>)
           monthly)"

text \<open>
  Second loop: only for \<open>t.type === "expense"\<close>, with
  \<open>cat = t.category || "Uncategorized"\<close> and
  \<open>categoryTotals[cat] = (categoryTotals[cat] || 0) + t.amount\<close>.
  \<open>categoryTotals\<close> is a plain object, \<open>{}\<close>, and \<open>cat\<close> is free text, so the
  members that every object inherits from \<open>Object.prototype\<close> take part. The values
  of the object are numbers or strings.
\<close>

datatype jsval = JNum int | JStr string

text \<open>\<open>String(n)\<close> for an integer.\<close>

fun showNat :: "nat \<Rightarrow> string" where
  "showNat n = (if n < 10 then [char_of (48 + n)]
                else showNat (n div 10) @ [char_of (48 + n mod 10)])"

declare showNat.simps [simp del]

definition showInt :: "int \<Rightarrow> string" where
  "showInt n = (if n < 0 then CHR ''-'' # showNat (nat (- n)) else showNat (nat n))"

text \<open>
  The members of \<open>Object.prototype\<close>, each with what \<open>String\<close> makes of its value: the
  built-in functions in the form \<open>function name() { [native code] }\<close>, and
  \<open>__proto__\<close>, whose getter answers \<open>Object.prototype\<close> itself.
\<close>

definition objectPrototype :: "string \<Rightarrow> string option" where
  "objectPrototype name =
     map_of
       [(''constructor'', ''function Object() { [native code] }''),
        (''__defineGetter__'', ''function __defineGetter__() { [native code] }''),
        (''__defineSetter__'', ''function __defineSetter__() { [native code] }''),
        (''hasOwnProperty'', ''function hasOwnProperty() { [native code] }''),
        (''__lookupGetter__'', ''function __lookupGetter__() { [native code] }''),
        (''__lookupSetter__'', ''function __lookupSetter__() { [native code] }''),
        (''isPrototypeOf'', ''function isPrototypeOf() { [native code] }''),
        (''propertyIsEnumerable'', ''function propertyIsEnumerable() { [native code] }''),
        (''toString'', ''function toString() { [native code] }''),
        (''valueOf'', ''function valueOf() { [native code] }''),
        (''toLocaleString'', ''function toLocaleString() { [native code] }''),
        (''__proto__'', ''[object Object]'')]
       name"

text \<open>
  \<open>categoryTotals[cat]\<close>: the own property when there is one, else the inherited
  member, else \<open>undefined\<close>. An inherited member is an object or a function: it is
  truthy, and \<open>+\<close> turns it into its string.
\<close>

definition getProperty :: "(string \<times> jsval) list \<Rightarrow> string \<Rightarrow> jsval option" where
  "getProperty obj name =
     (case map_of obj name of
        Some v \<Rightarrow> Some v
      | None \<Rightarrow> map_option JStr (objectPrototype name))"

text \<open>\<open>v || 0\<close>: \<open>v\<close> when it is truthy (a number other than 0, a string that is not empty).\<close>

definition orZero :: "jsval option \<Rightarrow> jsval" where
  "orZero v =
     (case v of
        None \<Rightarrow> JNum 0
      | Some (JNum n) \<Rightarrow> JNum n
      | Some (JStr x) \<Rightarrow> if x = [] then JNum 0 else JStr x)"

text \<open>\<open>v + t.amount\<close>: the sum of two numbers, or the string followed by the number.\<close>

fun js_plus :: "jsval \<Rightarrow> int \<Rightarrow> jsval" where
  "js_plus (JNum a) n = JNum (a + n)"
| "js_plus (JStr x) n = JStr (x @ showInt n)"

text \<open>
  \<open>categoryTotals[cat] = v\<close>: an own property is created or replaced, except for
  \<open>__proto__\<close>, whose inherited setter ignores a value that is no object.
\<close>

definition setProperty :: "string \<Rightarrow> jsval \<Rightarrow> (string \<times> jsval) list \<Rightarrow> (string \<times> jsval) list" where
  "setProperty name v obj = (if name = ''__proto__'' then obj else AList.update name v obj)"

definition cat :: "transaction \<Rightarrow> string" where
  "cat t = (if falsy (category t) then ''Uncategorized'' else orElse (category t) [])"

definition categoryStep :: "(string \<times> jsval) list \<Rightarrow> transaction \<Rightarrow> (string \<times> jsval) list" where
  "categoryStep categoryTotals t =
     (if ttype t = Expense
      then setProperty (cat t) (js_plus (orZero (getProperty categoryTotals (cat t))) (amount t))
             categoryTotals
      else categoryTotals)"

record analytics =
  a_monthly :: "(string \<times> monthBucket) list"
  a_categoryTotals :: "(string \<times> jsval) list"

definition getAnalytics :: "store \<Rightarrow> objectId \<Rightarrow> analytics" where
  "getAnalytics s uid =
     (let transactions = filter (\<lambda>t. userId t = uid) s
      in \<lparr> a_monthly = foldl monthlyStep [] transactions,
           a_categoryTotals = foldl categoryStep [] transactions \<rparr>)"

section \<open>Sample data\<close>

text \<open>
  Two users and four documents, used to evaluate the handlers: Alice's coffee of
  10 January 2025, her salary of 10 January 2024, Bob's rent of 1 March 2025 and
  Alice's books of 1 February 2025.
\<close>

definition alice :: objectId where "alice = ''64b7f3a1c2d4e5f601234501''"
definition bob :: objectId where "bob = ''64b7f3a1c2d4e5f601234502''"

definition coffee :: transaction where
  "coffee = \<lparr> tx_id = ''65a0000000000000000000c1'', userId = alice, title = ''Coffee'',
              amount = 5, ttype = Expense, category = Some ''Food'',
              date = 1736467200000, createdAt = 1736500000000, updatedAt = 1736500000000 \<rparr>"

definition salary :: transaction where
  "salary = \<lparr> tx_id = ''65a0000000000000000000c2'', userId = alice, title = ''Salary'',
              amount = 3000, ttype = Income, category = None,
              date = 1704844800000, createdAt = 1736500000001, updatedAt = 1736500000001 \<rparr>"

definition rent :: transaction where
  "rent = \<lparr> tx_id = ''65a0000000000000000000c3'', userId = bob, title = ''Rent'',
            amount = 900, ttype = Expense, category = Some ''Home'',
            date = 1740787200000, createdAt = 1740800000000, updatedAt = 1740800000000 \<rparr>"

definition books :: transaction where
  "books = \<lparr> tx_id = ''65a0000000000000000000c4'', userId = alice, title = ''Books'',
             amount = 40, ttype = Expense, category = None,
             date = 1738368000000, createdAt = 1738400000000, updatedAt = 1738400000000 \<rparr>"

text \<open>Alice's bonus of 1 May 2025, for the summary requested on 15 October 2025.\<close>

definition bonus :: transaction where
  "bonus = \<lparr> tx_id = ''65a0000000000000000000c5'', userId = alice, title = ''Bonus'',
             amount = 100, ttype = Income, category = None,
             date = 1746057600000, createdAt = 1746100000000, updatedAt = 1746100000000 \<rparr>"

text \<open>
  Alice's tea, of the same date as her coffee, and two expenses whose categories are
  names of members of \<open>Object.prototype\<close>.
\<close>

definition tea :: transaction where
  "tea = \<lparr> tx_id = ''65a0000000000000000000c6'', userId = alice, title = ''Tea'',
           amount = 3, ttype = Expense, category = Some ''Food'',
           date = 1736467200000, createdAt = 1736500000002, updatedAt = 1736500000002 \<rparr>"

definition gift :: transaction where
  "gift = \<lparr> tx_id = ''65a0000000000000000000c7'', userId = alice, title = ''Gift'',
            amount = 5, ttype = Expense, category = Some ''constructor'',
            date = 1736467200000, createdAt = 1736500000003, updatedAt = 1736500000003 \<rparr>"

definition toll :: transaction where
  "toll = \<lparr> tx_id = ''65a0000000000000000000c8'', userId = alice, title = ''Toll'',
            amount = 7, ttype = Expense, category = Some ''__proto__'',
            date = 1736467200000, createdAt = 1736500000004, updatedAt = 1736500000004 \<rparr>"

definition ledger :: store where
  "ledger = [coffee, salary, rent, books]"

text \<open>Alice's requests for page \<open>k\<close> (1 or 2) of her documents, two per page.\<close>

definition pageQuery :: "nat \<Rightarrow> query" where
  "pageQuery k = \<lparr> q_page = Some (if k = 1 then ''1'' else ''2''), q_limit = Some ''2'',
                    q_startDate = None, q_endDate = None, q_category = None, q_type = None \<rparr>"


lemmas sample_defs = alice_def bob_def coffee_def salary_def rent_def books_def bonus_def
  tea_def gift_def toll_def ledger_def

section \<open>Facts about the store operations\<close>

lemma findById_None_iff: "findById s i = None \<longleftrightarrow> (\<forall>t\<in>set s. tx_id t \<noteq> i)"
  by (auto simp: findById_def find_None_iff)

lemma findById_SomeD: "findById s i = Some t \<Longrightarrow> t \<in> set s \<and> tx_id t = i"
  unfolding findById_def by (induction s) (auto split: if_splits)

lemma findById_member:
  "distinct (map tx_id s) \<Longrightarrow> t \<in> set s \<Longrightarrow> findById s (tx_id t) = Some t"
  unfolding findById_def by (induction s) (auto simp: rev_image_eqI)

lemma tx_id_applyUpdates: "tx_id (applyUpdates now u t) = tx_id t"
  by (simp add: applyUpdates_def)

lemma findById_findByIdAndUpdate:
  "findById (findByIdAndUpdate now i u s) i = map_option (applyUpdates now u) (findById s i)"
  unfolding findById_def by (induction s) (simp_all add: tx_id_applyUpdates)

lemma findById_findByIdAndUpdate_other:
  "j \<noteq> i \<Longrightarrow> findById (findByIdAndUpdate now i u s) j = findById s j"
  unfolding findById_def by (induction s) (simp_all add: tx_id_applyUpdates)

lemma map_tx_id_findByIdAndUpdate: "map tx_id (findByIdAndUpdate now i u s) = map tx_id s"
  by (induction s) (simp_all add: tx_id_applyUpdates)

lemma set_deleteOne:
  "distinct (map tx_id s) \<Longrightarrow> set (deleteOne i s) = {t \<in> set s. tx_id t \<noteq> i}"
  by (induction s) (auto simp: rev_image_eqI)

lemma findById_deleteOne:
  "distinct (map tx_id s) \<Longrightarrow> findById (deleteOne i s) i = None"
  by (simp add: findById_None_iff set_deleteOne)

section \<open>Existence before ownership\<close>

text \<open>
  C1 (as amended). For a well-formed id, each of get-by-id, update and delete answers
  NotFound (404) when no document has the id, whoever the caller is, and leaves the store
  as it was; answers Forbidden (403) when the document exists and its owner is not the
  caller, again without touching the store; and returns, modifies or deletes the
  document exactly when owner and caller are equal. A reply that is not an error
  implies that the document existed and belonged to the caller. A malformed id is
  answered 400 before the store is consulted.
\<close>

theorem ownership_guard:
  assumes "distinct (map tx_id s)"
  shows "((\<forall>t\<in>set s. tx_id t \<noteq> i) \<longrightarrow>
            getTransactionById s uid (WellFormed i) = Inl (NotFound ''Transaction not found'')
          \<and> updateTransaction now s uid (WellFormed i) body
              = (Inl (NotFound ''Transaction not found''), s)
          \<and> deleteTransaction s uid (WellFormed i)
              = (Inl (NotFound ''Transaction not found''), s))
       \<and> (t \<in> set s \<and> tx_id t = i \<and> userId t \<noteq> uid \<longrightarrow>
            getTransactionById s uid (WellFormed i) = Inl (Forbidden ''Not authorized'')
          \<and> updateTransaction now s uid (WellFormed i) body
              = (Inl (Forbidden ''Not authorized''), s)
          \<and> deleteTransaction s uid (WellFormed i)
              = (Inl (Forbidden ''Not authorized''), s))
       \<and> (t \<in> set s \<and> tx_id t = i \<and> userId t = uid \<longrightarrow>
            getTransactionById s uid (WellFormed i) = Inr t
          \<and> fst (updateTransaction now s uid (WellFormed i) body)
              = Inr (Some (applyUpdates now body t))
          \<and> findById (snd (updateTransaction now s uid (WellFormed i) body)) i
              = Some (applyUpdates now body t)
          \<and> fst (deleteTransaction s uid (WellFormed i)) = Inr ''Transaction deleted''
          \<and> findById (snd (deleteTransaction s uid (WellFormed i))) i = None)
       \<and> ((\<exists>r. getTransactionById s uid (WellFormed i) = Inr r)
           \<or> (\<exists>r. fst (updateTransaction now s uid (WellFormed i) body) = Inr r)
           \<or> (\<exists>m. fst (deleteTransaction s uid (WellFormed i)) = Inr m)
           \<or> snd (updateTransaction now s uid (WellFormed i) body) \<noteq> s
           \<or> snd (deleteTransaction s uid (WellFormed i)) \<noteq> s
          \<longrightarrow> (\<exists>t'\<in>set s. tx_id t' = i \<and> userId t' = uid))
       \<and> getTransactionById s uid (Malformed x) = Inl (BadRequest ''Invalid id'')
       \<and> updateTransaction now s uid (Malformed x) body = (Inl (BadRequest ''Invalid id''), s)
       \<and> deleteTransaction s uid (Malformed x) = (Inl (BadRequest ''Invalid id''), s)
       \<and> status (NotFound ''Transaction not found'') = 404
       \<and> status (Forbidden ''Not authorized'') = 403
       \<and> status (BadRequest ''Invalid id'') = 400"
proof -
  have missing: "(\<forall>t\<in>set s. tx_id t \<noteq> i) \<longrightarrow>
            getTransactionById s uid (WellFormed i) = Inl (NotFound ''Transaction not found'')
          \<and> updateTransaction now s uid (WellFormed i) body
              = (Inl (NotFound ''Transaction not found''), s)
          \<and> deleteTransaction s uid (WellFormed i)
              = (Inl (NotFound ''Transaction not found''), s)"
    by (simp add: getTransactionById_def updateTransaction_def deleteTransaction_def
        findById_None_iff [symmetric])
  have foreign: "t \<in> set s \<and> tx_id t = i \<and> userId t \<noteq> uid \<longrightarrow>
            getTransactionById s uid (WellFormed i) = Inl (Forbidden ''Not authorized'')
          \<and> updateTransaction now s uid (WellFormed i) body
              = (Inl (Forbidden ''Not authorized''), s)
          \<and> deleteTransaction s uid (WellFormed i)
              = (Inl (Forbidden ''Not authorized''), s)"
    using findById_member [OF assms, of t]
    by (auto simp: getTransactionById_def updateTransaction_def deleteTransaction_def)
  have own: "t \<in> set s \<and> tx_id t = i \<and> userId t = uid \<longrightarrow>
            getTransactionById s uid (WellFormed i) = Inr t
          \<and> fst (updateTransaction now s uid (WellFormed i) body)
              = Inr (Some (applyUpdates now body t))
          \<and> findById (snd (updateTransaction now s uid (WellFormed i) body)) i
              = Some (applyUpdates now body t)
          \<and> fst (deleteTransaction s uid (WellFormed i)) = Inr ''Transaction deleted''
          \<and> findById (snd (deleteTransaction s uid (WellFormed i))) i = None"
    using findById_member [OF assms, of t] findById_deleteOne [OF assms, of i]
    by (auto simp: getTransactionById_def updateTransaction_def deleteTransaction_def
        Let_def findById_findByIdAndUpdate)
  have only: "(\<exists>r. getTransactionById s uid (WellFormed i) = Inr r)
           \<or> (\<exists>r. fst (updateTransaction now s uid (WellFormed i) body) = Inr r)
           \<or> (\<exists>m. fst (deleteTransaction s uid (WellFormed i)) = Inr m)
           \<or> snd (updateTransaction now s uid (WellFormed i) body) \<noteq> s
           \<or> snd (deleteTransaction s uid (WellFormed i)) \<noteq> s
          \<longrightarrow> (\<exists>t'\<in>set s. tx_id t' = i \<and> userId t' = uid)"
    by (auto simp: getTransactionById_def updateTransaction_def deleteTransaction_def
        Let_def split: option.splits if_splits dest: findById_SomeD)
  have malformed: "getTransactionById s uid (Malformed x) = Inl (BadRequest ''Invalid id'')
       \<and> updateTransaction now s uid (Malformed x) body = (Inl (BadRequest ''Invalid id''), s)
       \<and> deleteTransaction s uid (Malformed x) = (Inl (BadRequest ''Invalid id''), s)"
    by (simp add: getTransactionById_def updateTransaction_def deleteTransaction_def)
  from missing foreign own only malformed show ?thesis by simp
qed

theorem ownership_guard_witness:
  "distinct (map tx_id ledger)
   \<and> findById ledger ''65a0000000000000000000ff'' = None
   \<and> getTransactionById ledger alice (WellFormed ''65a0000000000000000000ff'')
       = Inl (NotFound ''Transaction not found'')
   \<and> getTransactionById ledger bob (WellFormed ''65a0000000000000000000ff'')
       = Inl (NotFound ''Transaction not found'')
   \<and> coffee \<in> set ledger \<and> userId coffee \<noteq> bob \<and> userId coffee = alice
   \<and> getTransactionById ledger bob (WellFormed (tx_id coffee))
       = Inl (Forbidden ''Not authorized'')
   \<and> deleteTransaction ledger bob (WellFormed (tx_id coffee))
       = (Inl (Forbidden ''Not authorized''), ledger)
   \<and> getTransactionById ledger alice (WellFormed (tx_id coffee)) = Inr coffee
   \<and> fst (deleteTransaction ledger alice (WellFormed (tx_id coffee))) = Inr ''Transaction deleted''
   \<and> (\<exists>r. getTransactionById ledger alice (WellFormed (tx_id coffee)) = Inr r)"
proof -
  have d: "distinct (map tx_id ledger)"
    by (simp add: sample_defs)
  have missing: "\<forall>t\<in>set ledger. tx_id t \<noteq> ''65a0000000000000000000ff''"
    by (simp add: sample_defs)
  have mem: "coffee \<in> set ledger"
    by (simp add: ledger_def)
  have foreign: "userId coffee \<noteq> bob" and own: "userId coffee = alice"
    by (simp_all add: sample_defs)
  note g = ownership_guard [OF d]
  have a: "getTransactionById ledger alice (WellFormed ''65a0000000000000000000ff'')
       = Inl (NotFound ''Transaction not found'')"
    using g [where i = "''65a0000000000000000000ff''" and uid = alice] missing by blast
  have b: "getTransactionById ledger bob (WellFormed ''65a0000000000000000000ff'')
       = Inl (NotFound ''Transaction not found'')"
    using g [where i = "''65a0000000000000000000ff''" and uid = bob] missing by blast
  have c: "getTransactionById ledger bob (WellFormed (tx_id coffee))
             = Inl (Forbidden ''Not authorized'')
         \<and> deleteTransaction ledger bob (WellFormed (tx_id coffee))
             = (Inl (Forbidden ''Not authorized''), ledger)"
    using g [where i = "tx_id coffee" and t = coffee and uid = bob] mem foreign by blast
  have e: "getTransactionById ledger alice (WellFormed (tx_id coffee)) = Inr coffee
         \<and> fst (deleteTransaction ledger alice (WellFormed (tx_id coffee)))
             = Inr ''Transaction deleted''"
    using g [where i = "tx_id coffee" and t = coffee and uid = alice] mem own by blast
  have none: "findById ledger ''65a0000000000000000000ff'' = None"
    using missing by (simp add: findById_None_iff)
  from d none mem foreign own a b c e show ?thesis by blast
qed

text \<open>
  C1 as stated fails on an id that is no ObjectId: no document has it, and the reply is
  400, not 404.
\<close>

theorem malformed_id_is_bad_request:
  "findById [] ''abc'' = None
   \<and> getTransactionById [] alice (Malformed ''abc'') = Inl (BadRequest ''Invalid id'')
   \<and> getTransactionById [] alice (Malformed ''abc'') \<noteq> Inl (NotFound ''Transaction not found'')
   \<and> status (BadRequest ''Invalid id'') = 400"
  by (simp add: findById_def getTransactionById_def)

section \<open>Update: the owner can be replaced\<close>

text \<open>
  What an update changes, for a flat body of well-typed declared fields that passes the
  existence and ownership checks: the reply is the stored document after the write; it
  keeps \<open>_id\<close> and \<open>createdAt\<close>, its \<open>updatedAt\<close> is the time of the write, and
  every declared field, \<open>userId\<close> included, is the body's value when the body has one.
\<close>

lemma flat_update:
  assumes "distinct (map tx_id s)" and "t \<in> set s" and "userId t = uid"
  shows "updateTransaction now s uid (WellFormed (tx_id t)) body
           = (Inr (Some (applyUpdates now body t)), findByIdAndUpdate now (tx_id t) body s)
       \<and> tx_id (applyUpdates now body t) = tx_id t
       \<and> createdAt (applyUpdates now body t) = createdAt t
       \<and> updatedAt (applyUpdates now body t) = now
       \<and> userId (applyUpdates now body t) = orElse (u_userId body) (userId t)"
proof -
  have found: "findById s (tx_id t) = Some t"
    using assms(1,2) by (rule findById_member)
  have after: "findById (findByIdAndUpdate now (tx_id t) body s) (tx_id t)
      = Some (applyUpdates now body t)"
    by (simp add: findById_findByIdAndUpdate found)
  show ?thesis
    using found after assms(3) by (simp add: updateTransaction_def applyUpdates_def)
qed

text \<open>
  C7 fails in the code. Alice sends \<open>{userId: bob}\<close> for her own document. The checks
  pass, \<open>req.body\<close> goes to \<open>findByIdAndUpdate\<close> as it is, and the stored document
  belongs to Bob afterwards: Alice is refused her former document and Bob is given it.
  \<open>createTransaction\<close> takes named fields from the body and the owner from the caller;
  \<open>updateTransaction\<close> does neither.
\<close>

theorem update_replaces_owner:
  "userId coffee = alice
   \<and> fst (updateTransaction 1736600000000 ledger alice (WellFormed (tx_id coffee))
            \<lparr> u_userId = Some bob, u_title = None, u_amount = None, u_ttype = None,
              u_category = None, u_date = None \<rparr>)
       = Inr (Some (coffee \<lparr> userId := bob, updatedAt := 1736600000000 \<rparr>))
   \<and> userId (coffee \<lparr> userId := bob, updatedAt := 1736600000000 \<rparr>) \<noteq> userId coffee
   \<and> getTransactionById
         (snd (updateTransaction 1736600000000 ledger alice (WellFormed (tx_id coffee))
            \<lparr> u_userId = Some bob, u_title = None, u_amount = None, u_ttype = None,
              u_category = None, u_date = None \<rparr>))
         alice (WellFormed (tx_id coffee))
       = Inl (Forbidden ''Not authorized'')
   \<and> getTransactionById
         (snd (updateTransaction 1736600000000 ledger alice (WellFormed (tx_id coffee))
            \<lparr> u_userId = Some bob, u_title = None, u_amount = None, u_ttype = None,
              u_category = None, u_date = None \<rparr>))
         bob (WellFormed (tx_id coffee))
       = Inr (coffee \<lparr> userId := bob, updatedAt := 1736600000000 \<rparr>)"
  by (simp add: updateTransaction_def getTransactionById_def findById_def applyUpdates_def
      orElse_def sample_defs)

section \<open>Create: required fields and what the schema refuses\<close>

lemma castKind_Some_iff:
  "castKind v = Some k \<longleftrightarrow> v = kindName k"
  by (cases k) (auto simp: castKind_def)

lemma castKind_None_iff: "castKind v = None \<longleftrightarrow> v \<noteq> ''income'' \<and> v \<noteq> ''expense''"
  by (simp add: castKind_def)

lemma kindName_nonempty: "kindName k \<noteq> []"
  by (cases k) simp_all

text \<open>
  C8 (as amended). If the title is missing or falsy, the amount is \<open>null\<close> or missing, or
  the type is missing or falsy, create answers 400 and the store is unchanged. Otherwise,
  if every value passes the schema (the title and the category are castable to strings,
  \<open>Number(amount)\<close> is a number, the type is \<open>income\<close> or \<open>expense\<close>, and the date,
  when it is given and truthy, is a valid date), create answers 201 with the new
  document, which is owned by the caller, carries the body's title, amount, kind,
  category and date (the clock when the date is missing or falsy) and is the one document
  added to the store. Otherwise a cast or the enum of the schema refuses the document:
  the reply is 500 and the store is unchanged.
\<close>

theorem create_contract:
  "(\<not> truthy (c_title body) \<or> c_amount body = None \<or> \<not> truthy (c_type body) \<longrightarrow>
      createTransaction newId now s uid body
        = (Inl (BadRequest ''title, amount and type are required''), s))
   \<and> (c_title body = Text ti \<and> ti \<noteq> [] \<and> c_amount body = Some (Num a)
        \<and> c_type body = Text (kindName k)
        \<and> c_category body \<noteq> Uncastable \<and> c_date body \<noteq> Some InvalidDate \<longrightarrow>
      (\<exists>t. createTransaction newId now s uid body = (Inr (201, t), s @ [t])
         \<and> userId t = uid \<and> tx_id t = newId \<and> title t = ti \<and> amount t = a \<and> ttype t = k
         \<and> category t = (case c_category body of Text c \<Rightarrow> Some c | _ \<Rightarrow> None)
         \<and> date t = (case c_date body of Some (Instant d) \<Rightarrow> d | _ \<Rightarrow> now)
         \<and> createdAt t = now \<and> updatedAt t = now))
   \<and> (truthy (c_title body) \<and> c_amount body \<noteq> None \<and> truthy (c_type body)
        \<and> (c_title body = Uncastable \<or> c_amount body = Some NaN
            \<or> (c_type body \<noteq> Text ''income'' \<and> c_type body \<noteq> Text ''expense'')
            \<or> c_category body = Uncastable \<or> c_date body = Some InvalidDate) \<longrightarrow>
      createTransaction newId now s uid body = (Inl (ServerError ''Server error''), s))
   \<and> status (BadRequest ''title, amount and type are required'') = 400
   \<and> status (ServerError ''Server error'') = 500"
proof -
  have missing: "\<not> truthy (c_title body) \<or> c_amount body = None \<or> \<not> truthy (c_type body) \<longrightarrow>
      createTransaction newId now s uid body
        = (Inl (BadRequest ''title, amount and type are required''), s)"
    by (simp add: createTransaction_def)
  have ck: "castKind (kindName k) = Some k" by (simp add: castKind_Some_iff)
  have created: "c_title body = Text ti \<and> ti \<noteq> [] \<and> c_amount body = Some (Num a)
        \<and> c_type body = Text (kindName k)
        \<and> c_category body \<noteq> Uncastable \<and> c_date body \<noteq> Some InvalidDate \<longrightarrow>
      (\<exists>t. createTransaction newId now s uid body = (Inr (201, t), s @ [t])
         \<and> userId t = uid \<and> tx_id t = newId \<and> title t = ti \<and> amount t = a \<and> ttype t = k
         \<and> category t = (case c_category body of Text c \<Rightarrow> Some c | _ \<Rightarrow> None)
         \<and> date t = (case c_date body of Some (Instant d) \<Rightarrow> d | _ \<Rightarrow> now)
         \<and> createdAt t = now \<and> updatedAt t = now)"
    using ck kindName_nonempty [of k]
    by (simp add: createTransaction_def createDocument_def)
  have refused: "createDocument newId now uid body = None"
    if "c_title body = Uncastable \<or> c_amount body = Some NaN
            \<or> (c_type body \<noteq> Text ''income'' \<and> c_type body \<noteq> Text ''expense'')
            \<or> c_category body = Uncastable \<or> c_date body = Some InvalidDate"
    using that
    by (auto simp: createDocument_def castKind_def
        split: textField.splits option.splits jsnum.splits)
  have rejected: "truthy (c_title body) \<and> c_amount body \<noteq> None \<and> truthy (c_type body)
        \<and> (c_title body = Uncastable \<or> c_amount body = Some NaN
            \<or> (c_type body \<noteq> Text ''income'' \<and> c_type body \<noteq> Text ''expense'')
            \<or> c_category body = Uncastable \<or> c_date body = Some InvalidDate) \<longrightarrow>
      createTransaction newId now s uid body = (Inl (ServerError ''Server error''), s)"
    using refused by (auto simp: createTransaction_def)
  from missing created rejected show ?thesis by simp
qed

theorem create_contract_witness:
  "createTransaction ''65a0000000000000000000c9'' 1736500000000 [] alice
      \<lparr> c_title = Text ''Coffee'', c_amount = None, c_type = Text ''expense'',
        c_category = NoValue, c_date = None \<rparr>
     = (Inl (BadRequest ''title, amount and type are required''), [])
   \<and> (\<exists>t. createTransaction ''65a0000000000000000000c9'' 1736500000000 [] alice
            \<lparr> c_title = Text ''Coffee'', c_amount = Some (Num 5), c_type = Text ''expense'',
              c_category = Text ''Food'', c_date = Some (Instant 1736467200000) \<rparr>
          = (Inr (201, t), [t])
        \<and> userId t = alice \<and> ttype t = Expense \<and> amount t = 5
        \<and> category t = Some ''Food'' \<and> date t = 1736467200000)
   \<and> createTransaction ''65a0000000000000000000c9'' 1736500000000 [] alice
      \<lparr> c_title = Text ''Coffee'', c_amount = Some (Num 5), c_type = Text ''expense'',
        c_category = NoValue, c_date = Some InvalidDate \<rparr>
     = (Inl (ServerError ''Server error''), [])"
proof -
  let ?b1 = "\<lparr> c_title = Text ''Coffee'', c_amount = None, c_type = Text ''expense'',
        c_category = NoValue, c_date = None \<rparr>"
  let ?b2 = "\<lparr> c_title = Text ''Coffee'', c_amount = Some (Num 5), c_type = Text ''expense'',
              c_category = Text ''Food'', c_date = Some (Instant 1736467200000) \<rparr>"
  let ?b3 = "\<lparr> c_title = Text ''Coffee'', c_amount = Some (Num 5), c_type = Text ''expense'',
        c_category = NoValue, c_date = Some InvalidDate \<rparr>"
  have h1: "\<not> truthy (c_title ?b1) \<or> c_amount ?b1 = None \<or> \<not> truthy (c_type ?b1)"
    by simp
  have h2: "c_title ?b2 = Text ''Coffee'' \<and> ''Coffee'' \<noteq> [] \<and> c_amount ?b2 = Some (Num 5)
        \<and> c_type ?b2 = Text (kindName Expense)
        \<and> c_category ?b2 \<noteq> Uncastable \<and> c_date ?b2 \<noteq> Some InvalidDate"
    by simp
  have h3: "truthy (c_title ?b3) \<and> c_amount ?b3 \<noteq> None \<and> truthy (c_type ?b3)
        \<and> (c_title ?b3 = Uncastable \<or> c_amount ?b3 = Some NaN
            \<or> (c_type ?b3 \<noteq> Text ''income'' \<and> c_type ?b3 \<noteq> Text ''expense'')
            \<or> c_category ?b3 = Uncastable \<or> c_date ?b3 = Some InvalidDate)"
    by simp
  have a: "createTransaction ''65a0000000000000000000c9'' 1736500000000 [] alice ?b1
     = (Inl (BadRequest ''title, amount and type are required''), [])"
    by (rule create_contract [where body = ?b1 and s = "[]", THEN conjunct1, THEN mp, OF h1])
  have "\<exists>t. createTransaction ''65a0000000000000000000c9'' 1736500000000 [] alice ?b2
          = (Inr (201, t), [] @ [t])
        \<and> userId t = alice \<and> tx_id t = ''65a0000000000000000000c9'' \<and> title t = ''Coffee''
        \<and> amount t = 5 \<and> ttype t = Expense
        \<and> category t = (case c_category ?b2 of Text c \<Rightarrow> Some c | _ \<Rightarrow> None)
        \<and> date t = (case c_date ?b2 of Some (Instant d) \<Rightarrow> d | _ \<Rightarrow> 1736500000000)
        \<and> createdAt t = 1736500000000 \<and> updatedAt t = 1736500000000"
    by (rule create_contract [where body = ?b2 and s = "[]" and ti = "''Coffee''" and a = 5
          and k = Expense, THEN conjunct2, THEN conjunct1, THEN mp, OF h2])
  then have b: "\<exists>t. createTransaction ''65a0000000000000000000c9'' 1736500000000 [] alice ?b2
          = (Inr (201, t), [t])
        \<and> userId t = alice \<and> ttype t = Expense \<and> amount t = 5
        \<and> category t = Some ''Food'' \<and> date t = 1736467200000"
    by auto
  have c: "createTransaction ''65a0000000000000000000c9'' 1736500000000 [] alice ?b3
     = (Inl (ServerError ''Server error''), [])"
    by (rule create_contract [where body = ?b3 and s = "[]",
          THEN conjunct2, THEN conjunct2, THEN conjunct1, THEN mp, OF h3])
  from a b c show ?thesis by (intro conjI)
qed

text \<open>
  C8 as stated fails on a body that has all three required fields and a type outside the
  closed set, and on one whose amount is no number: the reply is neither 400 nor 201.
\<close>

theorem create_rejects_unknown_kind:
  "truthy (Text ''Coffee'') \<and> truthy (Text ''refund'')
   \<and> fst (createTransaction ''65a0000000000000000000c9'' 1736500000000 [] alice
        \<lparr> c_title = Text ''Coffee'', c_amount = Some (Num 5), c_type = Text ''refund'',
          c_category = NoValue, c_date = None \<rparr>)
       = Inl (ServerError ''Server error'')
   \<and> fst (createTransaction ''65a0000000000000000000c9'' 1736500000000 [] alice
        \<lparr> c_title = Text ''Coffee'', c_amount = Some NaN, c_type = Text ''expense'',
          c_category = NoValue, c_date = None \<rparr>)
       = Inl (ServerError ''Server error'')
   \<and> status (ServerError ''Server error'') = 500"
  by (simp add: createTransaction_def createDocument_def castKind_def)


section \<open>Listing: pages\<close>

lemma Math_max_one: "Math_max (Num 1) x = Num p \<Longrightarrow> 1 \<le> p"
  by (cases x) auto

lemma pageNum_ge: "pageNum q = Num p \<Longrightarrow> 1 \<le> p"
  unfolding pageNum_def by (rule Math_max_one)

lemma lim_ge: "lim q = Num L \<Longrightarrow> 1 \<le> L"
  unfolding lim_def by (rule Math_max_one)

lemma mset_sort_date_desc: "mset (sort_date_desc xs) = mset xs"
  by (simp add: sort_date_desc_def)

lemma set_sort_date_desc: "set (sort_date_desc xs) = set xs"
  by (simp add: sort_date_desc_def)

lemma length_sort_date_desc: "length (sort_date_desc xs) = length xs"
  by (simp add: sort_date_desc_def)

lemma distinct_sort_date_desc: "distinct (sort_date_desc xs) = distinct xs"
  by (simp add: sort_date_desc_def)

lemma sorted_sort_date_desc: "sorted_wrt (\<lambda>a b. date b \<le> date a) (sort_date_desc xs)"
proof -
  have "sorted (map (\<lambda>t. - date t) (sort_date_desc xs))"
    by (simp add: sort_date_desc_def)
  then show ?thesis
    by (simp add: sorted_wrt_map)
qed

lemma ceil_div_times_ge:
  assumes "1 \<le> L"
  shows "int n \<le> \<lceil>real n / real_of_int L\<rceil> * L"
proof -
  have pos: "0 < real_of_int L" using assms by simp
  have "real n / real_of_int L \<le> of_int \<lceil>real n / real_of_int L\<rceil>"
    by (rule le_of_int_ceiling)
  then have "real n \<le> of_int \<lceil>real n / real_of_int L\<rceil> * real_of_int L"
    by (simp only: pos_divide_le_eq [OF pos])
  then have "real_of_int (int n) \<le> real_of_int (\<lceil>real n / real_of_int L\<rceil> * L)"
    by simp
  then show ?thesis by (simp only: of_int_le_iff)
qed








lemma matches_wanted:
  "matches (filterOf uid q) t
     = wanted uid (q_type q) (q_category q) (q_startDate q) (q_endDate q) t"
  by (auto simp: matches_def filterOf_def falsy_def split: option.splits jsdate.splits)

lemma filter_matches_wanted:
  "filter (matches (filterOf uid q)) xs
     = filter (wanted uid (q_type q) (q_category q) (q_startDate q) (q_endDate q)) xs"
  by (rule filter_cong [OF refl]) (rule matches_wanted)

lemma getTransactions_invalid_date:
  assumes "q_startDate q = Some InvalidDate \<or> q_endDate q = Some InvalidDate"
  shows "getTransactions scan nf s uid q = Inl (ServerError ''Server error'')"
  using assms
  by (auto simp: getTransactions_def countDocuments_def castable_def filterOf_def)

lemma getTransactions_numeric:
  assumes "pageNum q = Num p" and "lim q = Num L"
    and "q_startDate q \<noteq> Some InvalidDate" and "q_endDate q \<noteq> Some InvalidDate"
  shows "getTransactions scan nf s uid q =
           Inr \<lparr> transactions = take (nat L) (drop (nat ((p - 1) * L))
                     (sort_date_desc
                        (filter (wanted uid (q_type q) (q_category q) (q_startDate q)
                                   (q_endDate q)) (scan s)))),
                 total = length (filter (wanted uid (q_type q) (q_category q) (q_startDate q)
                                   (q_endDate q)) s),
                 page = Num p,
                 pages = Num \<lceil>real (length (filter (wanted uid (q_type q) (q_category q)
                                   (q_startDate q) (q_endDate q)) s)) / real_of_int L\<rceil> \<rparr>"
proof -
  have p: "1 \<le> p" using assms(1) by (rule pageNum_ge)
  have L: "1 \<le> L" using assms(2) by (rule lim_ge)
  have "0 \<le> (p - 1) * L" using p L by simp
  then have sl: "skip_limit nf (Num ((p - 1) * L)) (Num L) xs
           = Some (take (nat L) (drop (nat ((p - 1) * L)) xs))" for xs
    using L by simp
  have c: "castable (filterOf uid q)"
    using assms(3,4) by (simp add: castable_def filterOf_def)
  have "getTransactions scan nf s uid q =
           Inr \<lparr> transactions = take (nat L) (drop (nat ((p - 1) * L))
                     (sort_date_desc (filter (matches (filterOf uid q)) (scan s)))),
                 total = length (filter (matches (filterOf uid q)) s),
                 page = Num p,
                 pages = Num \<lceil>real (length (filter (matches (filterOf uid q)) s))
                              / real_of_int L\<rceil> \<rparr>"
    by (simp add: getTransactions_def assms(1,2) countDocuments_def c find_docs_def sl Let_def
        del: skip_limit.simps)
  then show ?thesis
    by (simp only: filter_matches_wanted)
qed

lemma mset_filter_scan:
  "mset (scan s) = mset s \<Longrightarrow> mset (filter P (scan s)) = mset (filter P s)"
  by (simp only: mset_filter)

text \<open>
  C2 (as amended). A list request whose page resolves to the number \<open>p\<close> and whose page
  size resolves to the number \<open>L\<close> (both are then at least 1), and whose date bounds,
  when given, are valid dates, is answered with: \<open>total\<close>, the number of the owner's
  documents that match the filter (kind, category and window as the request gives
  them); the matching documents sorted by date, newest first, with the first
  \<open>(p - 1) * L\<close> skipped and at most \<open>L\<close> taken; \<open>page = p\<close>; and \<open>pages\<close>, the
  ceiling of \<open>total / L\<close>. With no matching document \<open>pages\<close> is 0 and the page is
  empty; a page beyond the last is empty, not an error. A request with a date bound that
  is no valid date is answered 500.
\<close>

theorem list_page:
  "(pageNum q = Num p \<and> lim q = Num L
      \<and> q_startDate q \<noteq> Some InvalidDate \<and> q_endDate q \<noteq> Some InvalidDate
      \<and> mset (scan s) = mset s \<longrightarrow>
        getTransactions scan nf s uid q =
           Inr \<lparr> transactions = take (nat L) (drop (nat ((p - 1) * L))
                     (sort_date_desc
                        (filter (wanted uid (q_type q) (q_category q) (q_startDate q)
                                   (q_endDate q)) (scan s)))),
                 total = length (filter (wanted uid (q_type q) (q_category q) (q_startDate q)
                                   (q_endDate q)) s),
                 page = Num p,
                 pages = Num \<lceil>real (length (filter (wanted uid (q_type q) (q_category q)
                                   (q_startDate q) (q_endDate q)) s)) / real_of_int L\<rceil> \<rparr>
      \<and> 1 \<le> p \<and> 1 \<le> L
      \<and> mset (sort_date_desc
                (filter (wanted uid (q_type q) (q_category q) (q_startDate q) (q_endDate q))
                   (scan s)))
          = mset (filter (wanted uid (q_type q) (q_category q) (q_startDate q) (q_endDate q)) s)
      \<and> sorted_wrt (\<lambda>a b. date b \<le> date a)
           (sort_date_desc
              (filter (wanted uid (q_type q) (q_category q) (q_startDate q) (q_endDate q))
                 (scan s)))
      \<and> (length (filter (wanted uid (q_type q) (q_category q) (q_startDate q) (q_endDate q)) s)
            = 0 \<longrightarrow>
            \<lceil>real (length (filter (wanted uid (q_type q) (q_category q) (q_startDate q)
                                   (q_endDate q)) s)) / real_of_int L\<rceil> = 0
          \<and> take (nat L) (drop (nat ((p - 1) * L))
                     (sort_date_desc
                        (filter (wanted uid (q_type q) (q_category q) (q_startDate q)
                                   (q_endDate q)) (scan s)))) = [])
      \<and> (\<lceil>real (length (filter (wanted uid (q_type q) (q_category q) (q_startDate q)
                                   (q_endDate q)) s)) / real_of_int L\<rceil> < p \<longrightarrow>
            take (nat L) (drop (nat ((p - 1) * L))
                     (sort_date_desc
                        (filter (wanted uid (q_type q) (q_category q) (q_startDate q)
                                   (q_endDate q)) (scan s)))) = []))
   \<and> (q_startDate q = Some InvalidDate \<or> q_endDate q = Some InvalidDate \<longrightarrow>
        getTransactions scan nf s uid q = Inl (ServerError ''Server error''))"
proof (intro conjI impI)
  let ?P = "wanted uid (q_type q) (q_category q) (q_startDate q) (q_endDate q)"
  let ?M = "filter ?P s"
  let ?X = "sort_date_desc (filter ?P (scan s))"
  let ?c = "\<lceil>real (length ?M) / real_of_int L\<rceil>"
  { assume h: "pageNum q = Num p \<and> lim q = Num L
      \<and> q_startDate q \<noteq> Some InvalidDate \<and> q_endDate q \<noteq> Some InvalidDate
      \<and> mset (scan s) = mset s"
    then have hp: "pageNum q = Num p" and hl: "lim q = Num L"
      and hs: "q_startDate q \<noteq> Some InvalidDate" and he: "q_endDate q \<noteq> Some InvalidDate"
      and sc: "mset (scan s) = mset s"
      by simp_all
    show p: "1 \<le> p" using hp by (rule pageNum_ge)
    show L: "1 \<le> L" using hl by (rule lim_ge)
    show "getTransactions scan nf s uid q =
           Inr \<lparr> transactions = take (nat L) (drop (nat ((p - 1) * L)) ?X),
                 total = length ?M, page = Num p, pages = Num ?c \<rparr>"
      using hp hl hs he by (rule getTransactions_numeric)
    have "mset (filter ?P (scan s)) = mset ?M" using sc by (rule mset_filter_scan)
    then show msX: "mset ?X = mset ?M" by (simp only: mset_sort_date_desc)
    show "sorted_wrt (\<lambda>a b. date b \<le> date a) ?X" by (rule sorted_sort_date_desc)
    have len: "length ?X = length ?M" using msX by (rule mset_eq_length)
    { assume z: "length ?M = 0"
      then have "?X = []" using len by simp
      moreover have "?c = 0" using z by simp
      ultimately show "?c = 0" and "take (nat L) (drop (nat ((p - 1) * L)) ?X) = []"
        by simp_all }
    { assume "?c < p"
      then have "?c \<le> p - 1" by simp
      then have "?c * L \<le> (p - 1) * L" using L by (simp add: mult_right_mono)
      moreover have "int (length ?M) \<le> ?c * L" using L by (rule ceil_div_times_ge)
      ultimately have "int (length ?M) \<le> (p - 1) * L" by simp
      then have "length ?X \<le> nat ((p - 1) * L)" using len by simp
      then show "take (nat L) (drop (nat ((p - 1) * L)) ?X) = []" by simp } }
  { assume "q_startDate q = Some InvalidDate \<or> q_endDate q = Some InvalidDate"
    then show "getTransactions scan nf s uid q = Inl (ServerError ''Server error'')"
      by (rule getTransactions_invalid_date) }
qed

text \<open>
  C2 as stated fails on a request whose page and page size resolve to 1 and 20 and
  whose \<open>startDate\<close> is no date: the reply is 500.
\<close>

theorem invalid_date_is_server_error:
  "pageNum \<lparr> q_page = None, q_limit = None, q_startDate = Some InvalidDate, q_endDate = None,
             q_category = None, q_type = None \<rparr> = Num 1
   \<and> lim \<lparr> q_page = None, q_limit = None, q_startDate = Some InvalidDate, q_endDate = None,
           q_category = None, q_type = None \<rparr> = Num 20
   \<and> getTransactions (\<lambda>s. s) None ledger alice
        \<lparr> q_page = None, q_limit = None, q_startDate = Some InvalidDate, q_endDate = None,
          q_category = None, q_type = None \<rparr>
       = Inl (ServerError ''Server error'')"
  by (simp add: getTransactions_def countDocuments_def castable_def filterOf_def pageNum_def
      lim_def orElse_def parseInt_def isWhiteSpace_def isDigit_def digitsValue_def)











section \<open>Listing on the sample data; malformed page and limit\<close>

lemmas parse_defs = parseInt_def isWhiteSpace_def isDigit_def digitsValue_def

lemma pageQuery_fields:
  "q_type (pageQuery k) = None" "q_category (pageQuery k) = None"
  "q_startDate (pageQuery k) = None" "q_endDate (pageQuery k) = None"
  "lim (pageQuery k) = Num 2"
  "pageNum (pageQuery 1) = Num 1" "pageNum (pageQuery 2) = Num 2"
  "pageNum (pageQuery (Suc 0)) = Num 1"
  by (simp_all add: pageQuery_def pageNum_def lim_def orElse_def parse_defs)

lemma alice_all:
  "filter (wanted alice None None None None) ledger = [coffee, salary, books]"
  "filter (wanted alice None None None None) (rev ledger) = [books, salary, coffee]"
  by (simp_all add: sample_defs)

lemma alice_sorted:
  "sort_date_desc [coffee, salary, books] = [books, coffee, salary]"
  "sort_date_desc [books, salary, coffee] = [books, coffee, salary]"
  by (simp_all add: sort_date_desc_def sample_defs)

theorem list_page_witness:
  "getTransactions (\<lambda>s. s) None ledger alice (pageQuery 2)
     = Inr \<lparr> transactions = [salary], total = 3, page = Num 2, pages = Num 2 \<rparr>
   \<and> getTransactions (\<lambda>s. s) None ledger bob
        \<lparr> q_page = Some ''3'', q_limit = None, q_startDate = None,
          q_endDate = Some (Instant 1767225600000), q_category = None,
          q_type = Some ''income'' \<rparr>
     = Inr \<lparr> transactions = [], total = 0, page = Num 3, pages = Num 0 \<rparr>
   \<and> getTransactions (\<lambda>s. s) None ledger bob
        \<lparr> q_page = Some ''3'', q_limit = None, q_startDate = None,
          q_endDate = Some InvalidDate, q_category = None, q_type = Some ''income'' \<rparr>
     = Inl (ServerError ''Server error'')"
proof (intro conjI)
  let ?q = "\<lparr> q_page = Some ''3'', q_limit = None, q_startDate = None,
          q_endDate = Some (Instant 1767225600000), q_category = None,
          q_type = Some ''income'' \<rparr>"
  have h: "pageNum ?q = Num 3 \<and> lim ?q = Num 20
      \<and> q_startDate ?q \<noteq> Some InvalidDate \<and> q_endDate ?q \<noteq> Some InvalidDate
      \<and> mset ((\<lambda>s. s) ledger) = mset ledger"
    by (simp add: pageNum_def lim_def orElse_def parse_defs)
  have m: "filter (wanted bob (q_type ?q) (q_category ?q) (q_startDate ?q) (q_endDate ?q)) ledger
      = []"
    by (simp add: sample_defs)
  have "getTransactions (\<lambda>s. s) None ledger bob ?q =
           Inr \<lparr> transactions = take (nat 20) (drop (nat ((3 - 1) * 20))
                     (sort_date_desc
                        (filter (wanted bob (q_type ?q) (q_category ?q) (q_startDate ?q)
                                   (q_endDate ?q)) ((\<lambda>s. s) ledger)))),
                 total = length (filter (wanted bob (q_type ?q) (q_category ?q)
                                   (q_startDate ?q) (q_endDate ?q)) ledger),
                 page = Num 3,
                 pages = Num \<lceil>real (length (filter (wanted bob (q_type ?q) (q_category ?q)
                                   (q_startDate ?q) (q_endDate ?q)) ledger))
                              / real_of_int 20\<rceil> \<rparr>"
    by (rule list_page [where scan = "\<lambda>s. s" and q = ?q and p = 3 and L = 20,
          THEN conjunct1, THEN mp, OF h, THEN conjunct1])
  then show "getTransactions (\<lambda>s. s) None ledger bob ?q
     = Inr \<lparr> transactions = [], total = 0, page = Num 3, pages = Num 0 \<rparr>"
    unfolding m by (simp add: sort_date_desc_def)
next
  let ?q = "\<lparr> q_page = Some ''3'', q_limit = None, q_startDate = None,
          q_endDate = Some InvalidDate, q_category = None, q_type = Some ''income'' \<rparr>"
  have h: "q_startDate ?q = Some InvalidDate \<or> q_endDate ?q = Some InvalidDate"
    by simp
  show "getTransactions (\<lambda>s. s) None ledger bob ?q = Inl (ServerError ''Server error'')"
    by (rule list_page [where q = ?q, THEN conjunct2, THEN mp, OF h])
next
  have h: "pageNum (pageQuery 2) = Num 2 \<and> lim (pageQuery 2) = Num 2
      \<and> q_startDate (pageQuery 2) \<noteq> Some InvalidDate
      \<and> q_endDate (pageQuery 2) \<noteq> Some InvalidDate
      \<and> mset ((\<lambda>s. s) ledger) = mset ledger"
    by (simp add: pageQuery_fields)
  have "getTransactions (\<lambda>s. s) None ledger alice (pageQuery 2) =
           Inr \<lparr> transactions = take (nat 2) (drop (nat ((2 - 1) * 2))
                     (sort_date_desc
                        (filter (wanted alice (q_type (pageQuery 2)) (q_category (pageQuery 2))
                                   (q_startDate (pageQuery 2)) (q_endDate (pageQuery 2)))
                           ((\<lambda>s. s) ledger)))),
                 total = length (filter (wanted alice (q_type (pageQuery 2))
                                   (q_category (pageQuery 2)) (q_startDate (pageQuery 2))
                                   (q_endDate (pageQuery 2))) ledger),
                 page = Num 2,
                 pages = Num \<lceil>real (length (filter (wanted alice (q_type (pageQuery 2))
                                   (q_category (pageQuery 2)) (q_startDate (pageQuery 2))
                                   (q_endDate (pageQuery 2))) ledger))
                              / real_of_int 2\<rceil> \<rparr>"
    by (rule list_page [where scan = "\<lambda>s. s" and q = "pageQuery 2" and p = 2 and L = 2,
          THEN conjunct1, THEN mp, OF h, THEN conjunct1])
  then show "getTransactions (\<lambda>s. s) None ledger alice (pageQuery 2)
     = Inr \<lparr> transactions = [salary], total = 3, page = Num 2, pages = Num 2 \<rparr>"
    unfolding pageQuery_fields alice_all alice_sorted by simp
qed


text \<open>
  C9 fails in the code. A page or limit with no leading digits is parsed to \<open>NaN\<close>, and
  \<open>Math.max(1, NaN)\<close> is \<open>NaN\<close>, not 1: the resolved value is no number of at least 1.
  The request then hands a \<open>NaN\<close> skip to the store; if the store raises, the reply is
  500, and if it answers, the reply carries \<open>page = NaN\<close>.
\<close>

theorem malformed_page_is_NaN:
  "parseInt ''abc'' = NaN
   \<and> pageNum \<lparr> q_page = Some ''abc'', q_limit = None, q_startDate = None, q_endDate = None,
               q_category = None, q_type = None \<rparr> = NaN
   \<and> lim \<lparr> q_page = None, q_limit = Some '''', q_startDate = None, q_endDate = None,
               q_category = None, q_type = None \<rparr> = NaN
   \<and> getTransactions (\<lambda>s. s) None ledger alice
        \<lparr> q_page = Some ''abc'', q_limit = None, q_startDate = None, q_endDate = None,
          q_category = None, q_type = None \<rparr>
       = Inl (ServerError ''Server error'')
   \<and> getTransactions (\<lambda>s. s) (Some []) ledger alice
        \<lparr> q_page = Some ''abc'', q_limit = None, q_startDate = None, q_endDate = None,
          q_category = None, q_type = None \<rparr>
       = Inr \<lparr> transactions = [], total = 3, page = NaN, pages = Num 1 \<rparr>"
  by (simp add: getTransactions_def pageNum_def lim_def orElse_def parse_defs
      countDocuments_def castable_def find_docs_def filterOf_def falsy_def matches_def
      sample_defs Let_def)

lemma resolved_or_NaN:
  "(pageNum q = NaN \<or> (\<exists>p. pageNum q = Num p \<and> 1 \<le> p))
   \<and> (lim q = NaN \<or> (\<exists>L. lim q = Num L \<and> 1 \<le> L))"
  by (metis jsnum.exhaust pageNum_ge lim_ge)

lemma clamped_when_numeric:
  "parseInt v = Num n \<Longrightarrow> pageNum (q \<lparr> q_page := Some v \<rparr>) = Num (max 1 n)"
  "parseInt v = Num n \<Longrightarrow> lim (q \<lparr> q_limit := Some v \<rparr>) = Num (max 1 n)"
  by (simp_all add: pageNum_def lim_def orElse_def)

lemma NaN_when_not_numeric:
  "parseInt v = NaN \<Longrightarrow> pageNum (q \<lparr> q_page := Some v \<rparr>) = NaN"
  "parseInt v = NaN \<Longrightarrow> lim (q \<lparr> q_limit := Some v \<rparr>) = NaN"
  by (simp_all add: pageNum_def lim_def orElse_def)

lemma parseInt_examples:
  "parseInt ''0'' = Num 0"
  "parseInt ''-5'' = Num (- 5)"
  "parseInt '' 12px'' = Num 12"
  "parseInt ''+7'' = Num 7"
  "parseInt [] = NaN"
  "parseInt ''ten'' = NaN"
  "parseInt ''-'' = NaN"
  by (simp_all add: parse_defs)

lemma absent_defaults:
  "q_page q = None \<Longrightarrow> pageNum q = Num 1"
  "q_limit q = None \<Longrightarrow> lim q = Num 20"
  by (simp_all add: pageNum_def lim_def orElse_def parse_defs)

section \<open>Calendar: known dates\<close>

lemma calendar_examples:
  "civil_from_days 0 = (1970, 1, 1)"
  "civil_from_days (- 1) = (1969, 12, 31)"
  "civil_from_days 19782 = (2024, 2, 29)"
  "days_from_civil 2025 10 15 = 20376"
  "civil_from_days 20376 = (2025, 10, 15)"
  "MonthFromTime 1760529600000 = 9"
  "civil_from_days (Day (startDate 1738368000000)) = (2024, 9, 1)"
  "civil_from_days (Day (startDate 1756641600000)) = (2025, 3, 31)"
  by code_simp+

section \<open>Aggregation: groups, totals, analytics\<close>

lemma map_of_foldl_group_step:
  "map_of (foldl (group_step key init acc) rows docs) k =
     (if k \<in> key ` set docs
      then Some (foldl acc (case map_of rows k of None \<Rightarrow> init | Some a \<Rightarrow> a)
                   (filter (\<lambda>d. key d = k) docs))
      else map_of rows k)"
proof (induction docs arbitrary: rows)
  case Nil
  show ?case by simp
next
  case (Cons d docs)
  let ?rows = "group_step key init acc rows d"
  have step: "map_of ?rows k =
      (if key d = k then Some (acc (case map_of rows k of None \<Rightarrow> init | Some a \<Rightarrow> a) d)
       else map_of rows k)"
    by (auto simp: group_step_def update_conv')
  have "map_of (foldl (group_step key init acc) rows (d # docs)) k
      = map_of (foldl (group_step key init acc) ?rows docs) k"
    by simp
  also have "\<dots> = (if k \<in> key ` set docs
      then Some (foldl acc (case map_of ?rows k of None \<Rightarrow> init | Some a \<Rightarrow> a)
                   (filter (\<lambda>d. key d = k) docs))
      else map_of ?rows k)"
    by (rule Cons.IH)
  also have "\<dots> = (if k \<in> key ` set (d # docs)
      then Some (foldl acc (case map_of rows k of None \<Rightarrow> init | Some a \<Rightarrow> a)
                   (filter (\<lambda>d. key d = k) (d # docs)))
      else map_of rows k)"
  proof -
    have "k \<notin> key ` set docs \<Longrightarrow> filter (\<lambda>d. key d = k) docs = []"
      by (auto simp: filter_empty_conv)
    then show ?thesis by (auto simp: step)
  qed
  finally show ?case .
qed

lemma map_of_group_by:
  "map_of (group_by key init acc docs) k =
     (if k \<in> key ` set docs then Some (foldl acc init (filter (\<lambda>d. key d = k) docs))
      else None)"
  by (simp add: group_by_def map_of_foldl_group_step)

lemma keys_foldl_group_step:
  "distinct (map fst rows) \<Longrightarrow> distinct (map fst (foldl (group_step key init acc) rows docs))"
  by (induction docs arbitrary: rows) (simp_all add: group_step_def distinct_update)

lemma distinct_group_by: "distinct (map fst (group_by key init acc docs))"
  by (simp add: group_by_def keys_foldl_group_step)

lemma set_keys_foldl_group_step:
  "fst ` set (foldl (group_step key init acc) rows docs) = fst ` set rows \<union> key ` set docs"
  by (induction docs arbitrary: rows) (auto simp: group_step_def dom_update)

lemma keys_group_by: "fst ` set (group_by key init acc docs) = key ` set docs"
  by (simp add: group_by_def set_keys_foldl_group_step)

lemma foldl_guard:
  "foldl (\<lambda>rows d. if P d then step rows d else rows) rows docs = foldl step rows (filter P docs)"
  by (induction docs arbitrary: rows) simp_all

lemma foldl_add: "foldl (\<lambda>a d. a + f d) a0 docs = a0 + sum_list (map f docs)" for a0 :: int
  by (induction docs arbitrary: a0) simp_all

lemma find_fst_map_of:
  "find (\<lambda>p. fst p = k) rows = (case map_of rows k of None \<Rightarrow> None | Some v \<Rightarrow> Some (k, v))"
  by (induction rows) auto

lemma sum_by_kind:
  "sum_list (map amount ts)
     = sum_list (map amount (filter (\<lambda>t. ttype t = Income) ts))
     + sum_list (map amount (filter (\<lambda>t. ttype t = Expense) ts))"
proof (induction ts)
  case Nil
  show ?case by simp
next
  case (Cons t ts)
  then show ?case by (cases "ttype t") simp_all
qed

lemma totalOf_totalsPipeline:
  "totalOf k (totalsPipeline s uid)
     = sum_list (map amount (filter (\<lambda>t. ttype t = k) (filter (\<lambda>t. userId t = uid) s)))"
proof (cases "k \<in> ttype ` set (filter (\<lambda>t. userId t = uid) s)")
  case True
  then show ?thesis
    by (simp add: totalOf_def totalsPipeline_def find_fst_map_of map_of_group_by foldl_add)
next
  case False
  then have "filter (\<lambda>t. ttype t = k) (filter (\<lambda>t. userId t = uid) s) = []"
    by (auto simp: filter_empty_conv)
  with False show ?thesis
    by (simp add: totalOf_def totalsPipeline_def find_fst_map_of map_of_group_by)
qed

text \<open>
  C5. For every owner and every store, \<open>totalIncome\<close> plus \<open>totalExpense\<close> of the
  summary is the sum of \<open>amount\<close> over all of the owner's documents; \<open>totalIncome\<close> is
  the sum over the owner's income documents and \<open>totalExpense\<close> the sum over the owner's
  expense documents; each is 0 when the owner has no document of that kind (also when
  the owner has none at all).
\<close>

theorem totals_add_up:
  "totalIncome (getSummary now s uid) + totalExpense (getSummary now s uid)
     = sum_list (map amount (filter (\<lambda>t. userId t = uid) s))
   \<and> totalIncome (getSummary now s uid)
     = sum_list (map amount (filter (\<lambda>t. userId t = uid \<and> ttype t = Income) s))
   \<and> totalExpense (getSummary now s uid)
     = sum_list (map amount (filter (\<lambda>t. userId t = uid \<and> ttype t = Expense) s))
   \<and> ((\<forall>t\<in>set s. userId t = uid \<longrightarrow> ttype t \<noteq> Income) \<longrightarrow>
        totalIncome (getSummary now s uid) = 0)
   \<and> ((\<forall>t\<in>set s. userId t = uid \<longrightarrow> ttype t \<noteq> Expense) \<longrightarrow>
        totalExpense (getSummary now s uid) = 0)"
proof -
  let ?own = "filter (\<lambda>t. userId t = uid) s"
  have inc: "totalIncome (getSummary now s uid)
      = sum_list (map amount (filter (\<lambda>t. ttype t = Income) ?own))"
    by (simp add: getSummary_def Let_def totalOf_totalsPipeline)
  have exp: "totalExpense (getSummary now s uid)
      = sum_list (map amount (filter (\<lambda>t. ttype t = Expense) ?own))"
    by (simp add: getSummary_def Let_def totalOf_totalsPipeline)
  have both: "totalIncome (getSummary now s uid) + totalExpense (getSummary now s uid)
      = sum_list (map amount ?own)"
    unfolding inc exp by (rule sum_by_kind [symmetric])
  have fl: "filter (\<lambda>t. ttype t = k) ?own = filter (\<lambda>t. userId t = uid \<and> ttype t = k) s" for k
    by (simp add: conj_commute)
  have none: "(\<forall>t\<in>set s. userId t = uid \<longrightarrow> ttype t \<noteq> k) \<longrightarrow>
      sum_list (map amount (filter (\<lambda>t. userId t = uid \<and> ttype t = k) s)) = 0" for k
  proof
    assume "\<forall>t\<in>set s. userId t = uid \<longrightarrow> ttype t \<noteq> k"
    then have "filter (\<lambda>t. userId t = uid \<and> ttype t = k) s = []"
      by (auto simp: filter_empty_conv)
    then show "sum_list (map amount (filter (\<lambda>t. userId t = uid \<and> ttype t = k) s)) = 0"
      by simp
  qed
  from inc exp both none [of Income] none [of Expense] show ?thesis
    by (simp only: fl simp_thms)
qed


lemma monthlyStep_group_step:
  "monthlyStep =
     group_step monthName \<lparr> income = 0, expense = 0 \<rparr>
       (\<lambda>b t. case ttype t of
                 Income \<Rightarrow> b \<lparr> income := income b + amount t \<rparr>
               | Expense \<Rightarrow> b \<lparr> expense := expense b + amount t \<rparr>)"
  by (intro ext) (simp add: monthlyStep_def group_step_def Let_def)

lemma foldl_bucket:
  "foldl (\<lambda>b t. case ttype t of
                 Income \<Rightarrow> b \<lparr> income := income b + amount t \<rparr>
               | Expense \<Rightarrow> b \<lparr> expense := expense b + amount t \<rparr>) b ts
     = \<lparr> income = income b + sum_list (map amount (filter (\<lambda>t. ttype t = Income) ts)),
         expense = expense b + sum_list (map amount (filter (\<lambda>t. ttype t = Expense) ts)) \<rparr>"
proof (induction ts arbitrary: b)
  case Nil
  show ?case by simp
next
  case (Cons t ts)
  show ?case by (cases "ttype t") (simp_all add: Cons.IH)
qed

lemma a_monthly_lookup:
  "map_of (a_monthly (getAnalytics s uid)) m =
     (if \<exists>t\<in>set s. userId t = uid \<and> monthName t = m
      then Some \<lparr> income = sum_list (map amount
                     (filter (\<lambda>t. userId t = uid \<and> monthName t = m \<and> ttype t = Income) s)),
                  expense = sum_list (map amount
                     (filter (\<lambda>t. userId t = uid \<and> monthName t = m \<and> ttype t = Expense) s)) \<rparr>
      else None)"
proof -
  let ?own = "filter (\<lambda>t. userId t = uid) s"
  have rows: "a_monthly (getAnalytics s uid)
      = group_by monthName \<lparr> income = 0, expense = 0 \<rparr>
          (\<lambda>b t. case ttype t of
                 Income \<Rightarrow> b \<lparr> income := income b + amount t \<rparr>
               | Expense \<Rightarrow> b \<lparr> expense := expense b + amount t \<rparr>) ?own"
    by (simp add: getAnalytics_def Let_def group_by_def monthlyStep_group_step)
  have key: "m \<in> monthName ` set ?own \<longleftrightarrow> (\<exists>t\<in>set s. userId t = uid \<and> monthName t = m)"
    by auto
  have fl: "filter (\<lambda>t. ttype t = k) (filter (\<lambda>t. monthName t = m) ?own)
      = filter (\<lambda>t. userId t = uid \<and> monthName t = m \<and> ttype t = k) s" for k
    by (simp add: conj_commute conj_left_commute)
  show ?thesis
    unfolding rows map_of_group_by key foldl_bucket fl by auto
qed

lemma objectPrototype_proto: "objectPrototype c = None \<Longrightarrow> c \<noteq> ''__proto__''"
  by (auto simp: objectPrototype_def)

lemma categoryStep_lookup:
  assumes "objectPrototype c = None"
  shows "map_of (categoryStep rows t) c =
     (if ttype t = Expense \<and> cat t = c
      then Some (js_plus (orZero (map_of rows c)) (amount t))
      else map_of rows c)"
proof -
  have own: "getProperty rows c = map_of rows c"
    using assms by (simp add: getProperty_def split: option.splits)
  from objectPrototype_proto [OF assms] own show ?thesis
    by (auto simp: categoryStep_def setProperty_def update_conv')
qed

lemma foldl_categoryStep_lookup:
  assumes "objectPrototype c = None"
  shows "map_of rows c = None \<or> map_of rows c = Some (JNum a) \<Longrightarrow>
     map_of (foldl categoryStep rows ts) c =
       (if \<exists>t\<in>set ts. ttype t = Expense \<and> cat t = c
        then Some (JNum ((case map_of rows c of Some (JNum a) \<Rightarrow> a | _ \<Rightarrow> 0)
               + sum_list (map amount (filter (\<lambda>t. ttype t = Expense \<and> cat t = c) ts))))
        else map_of rows c)"
proof (induction ts arbitrary: rows a)
  case Nil
  show ?case by simp
next
  case (Cons t ts)
  show ?case
  proof (cases "ttype t = Expense \<and> cat t = c")
    case False
    then have same: "map_of (categoryStep rows t) c = map_of rows c"
      by (auto simp: categoryStep_lookup [OF assms])
    from Cons.prems have "map_of (categoryStep rows t) c = None
        \<or> map_of (categoryStep rows t) c = Some (JNum a)"
      by (simp only: same)
    note ih = Cons.IH [OF this, unfolded same]
    have f: "filter (\<lambda>t. ttype t = Expense \<and> cat t = c) (t # ts)
        = filter (\<lambda>t. ttype t = Expense \<and> cat t = c) ts"
      using False by auto
    have e: "(\<exists>x\<in>set (t # ts). ttype x = Expense \<and> cat x = c)
        \<longleftrightarrow> (\<exists>x\<in>set ts. ttype x = Expense \<and> cat x = c)"
      using False by auto
    have st: "foldl categoryStep rows (t # ts) = foldl categoryStep (categoryStep rows t) ts"
      by simp
    show ?thesis
      unfolding st f e by (rule ih)
  next
    case True
    define b where "b = (case map_of rows c of Some (JNum a) \<Rightarrow> a | _ \<Rightarrow> 0) + amount t"
    from Cons.prems True have new: "map_of (categoryStep rows t) c = Some (JNum b)"
      by (auto simp: categoryStep_lookup [OF assms] orZero_def b_def)
    then have "map_of (categoryStep rows t) c = None
        \<or> map_of (categoryStep rows t) c = Some (JNum b)"
      by simp
    from Cons.IH [OF this] True show ?thesis
      by (simp add: new b_def)
  qed
qed

text \<open>
  For a label that is no member name of \<open>Object.prototype\<close> the category object holds
  what C6 says: an entry exactly when some expense document of the owner has the label,
  with the sum of their amounts.
\<close>

lemma a_categoryTotals_lookup:
  assumes "objectPrototype c = None"
  shows "map_of (a_categoryTotals (getAnalytics s uid)) c =
     (if \<exists>t\<in>set s. userId t = uid \<and> ttype t = Expense \<and> cat t = c
      then Some (JNum (sum_list (map amount
                   (filter (\<lambda>t. userId t = uid \<and> ttype t = Expense \<and> cat t = c) s))))
      else None)"
proof -
  let ?own = "filter (\<lambda>t. userId t = uid) s"
  have start: "map_of ([] :: (string \<times> jsval) list) c = None
      \<or> map_of ([] :: (string \<times> jsval) list) c = Some (JNum 0)"
    by simp
  have fl: "filter (\<lambda>t. ttype t = Expense \<and> cat t = c) ?own
      = filter (\<lambda>t. userId t = uid \<and> ttype t = Expense \<and> cat t = c) s"
    by (simp add: conj_commute conj_left_commute)
  have key: "(\<exists>t\<in>set ?own. ttype t = Expense \<and> cat t = c)
      \<longleftrightarrow> (\<exists>t\<in>set s. userId t = uid \<and> ttype t = Expense \<and> cat t = c)"
    by auto
  have "map_of (a_categoryTotals (getAnalytics s uid)) c
      = map_of (foldl categoryStep [] ?own) c"
    by (simp add: getAnalytics_def Let_def)
  also have "\<dots> = (if \<exists>t\<in>set ?own. ttype t = Expense \<and> cat t = c
        then Some (JNum ((case map_of ([] :: (string \<times> jsval) list) c of
                            Some (JNum a) \<Rightarrow> a | _ \<Rightarrow> 0)
               + sum_list (map amount (filter (\<lambda>t. ttype t = Expense \<and> cat t = c) ?own))))
        else map_of ([] :: (string \<times> jsval) list) c)"
    by (rule foldl_categoryStep_lookup [OF assms start])
  finally have e: "map_of (a_categoryTotals (getAnalytics s uid)) c
      = (if \<exists>t\<in>set ?own. ttype t = Expense \<and> cat t = c
        then Some (JNum ((case map_of ([] :: (string \<times> jsval) list) c of
                            Some (JNum a) \<Rightarrow> a | _ \<Rightarrow> 0)
               + sum_list (map amount (filter (\<lambda>t. ttype t = Expense \<and> cat t = c) ?own))))
        else map_of ([] :: (string \<times> jsval) list) c)" .
  show ?thesis
    unfolding e key fl by auto
qed

lemma distinct_foldl_categoryStep:
  "distinct (map fst rows) \<Longrightarrow> distinct (map fst (foldl categoryStep rows ts))"
  by (induction ts arbitrary: rows)
     (simp_all add: categoryStep_def setProperty_def distinct_update)

lemma distinct_analytics_keys:
  "distinct (map fst (a_monthly (getAnalytics s uid)))
   \<and> distinct (map fst (a_categoryTotals (getAnalytics s uid)))"
  by (simp add: getAnalytics_def Let_def monthlyStep_group_step keys_foldl_group_step
      distinct_foldl_categoryStep)

lemma labels:
  "category t = None \<or> category t = Some [] \<Longrightarrow> cat t = ''Uncategorized''"
  "category t = Some l \<Longrightarrow> l \<noteq> [] \<Longrightarrow> cat t = l"
  "monthName t = monthShort (MonthFromTime (date t))"
  by (auto simp: cat_def falsy_def orElse_def monthName_def)

lemma analytics_on_ledger:
  "map_of (a_monthly (getAnalytics ledger alice)) ''Jan'' = Some \<lparr> income = 3000, expense = 5 \<rparr>"
  "YearFromTime (date salary) = 2024" "YearFromTime (date coffee) = 2025"
  "a_categoryTotals (getAnalytics ledger alice) = [(''Food'', JNum 5), (''Uncategorized'', JNum 40)]"
  by code_simp+

text \<open>
  C6 fails in the code. The category object is a plain object, and a label is free text.
  For an expense of 5 with the category \<open>constructor\<close>, \<open>categoryTotals[cat] || 0\<close> is
  the inherited function \<open>Object\<close>, and adding 5 to it makes a string: the entry is no
  sum of amounts. For an expense of 7 with the category \<open>__proto__\<close> the assignment
  goes to the inherited setter, which ignores a number: the label has an expense
  document and no entry. With an ordinary label beside them, the entry of \<open>Food\<close> is
  the sum, 8.
\<close>

theorem category_totals_inherit_object_members:
  "userId gift = alice \<and> ttype gift = Expense \<and> cat gift = ''constructor'' \<and> amount gift = 5
   \<and> a_categoryTotals (getAnalytics [gift] alice)
       = [(''constructor'', JStr ''function Object() { [native code] }5'')]
   \<and> userId toll = alice \<and> ttype toll = Expense \<and> cat toll = ''__proto__'' \<and> amount toll = 7
   \<and> a_categoryTotals (getAnalytics [toll] alice) = []
   \<and> a_categoryTotals (getAnalytics [coffee, gift, tea, toll, gift] alice)
       = [(''Food'', JNum 8),
          (''constructor'', JStr ''function Object() { [native code] }55'')]"
  by code_simp

lemma foldl_monthlyAcc:
  "foldl monthlyAcc b ds
     = \<lparr> income = income b + sum_list (map p_amount (filter (\<lambda>d. p_type d = Income) ds)),
         expense = expense b + sum_list (map p_amount (filter (\<lambda>d. p_type d = Expense) ds)) \<rparr>"
proof (induction ds arbitrary: b)
  case Nil
  show ?case by simp
next
  case (Cons d ds)
  have "foldl monthlyAcc b (d # ds) = foldl monthlyAcc (monthlyAcc b d) ds"
    by simp
  also have "\<dots> = \<lparr> income = income (monthlyAcc b d)
                        + sum_list (map p_amount (filter (\<lambda>d. p_type d = Income) ds)),
                    expense = expense (monthlyAcc b d)
                        + sum_list (map p_amount (filter (\<lambda>d. p_type d = Expense) ds)) \<rparr>"
    by (rule Cons.IH)
  also have "\<dots> = \<lparr> income = income b
                        + sum_list (map p_amount (filter (\<lambda>d. p_type d = Income) (d # ds))),
                    expense = expense b
                        + sum_list (map p_amount (filter (\<lambda>d. p_type d = Expense) (d # ds))) \<rparr>"
    by (cases "p_type d") (simp_all add: monthlyAcc_def)
  finally show ?case .
qed

lemma map_of_sort_key_fst:
  assumes "distinct (map fst rows)"
  shows "map_of (sort_key fst rows) = map_of rows"
proof -
  have "mset (map fst (sort_key fst rows)) = mset (map fst rows)"
    by simp
  then have "distinct (map fst (sort_key fst rows))"
    using assms by (metis mset_eq_imp_distinct_iff)
  moreover have "set (sort_key fst rows) = set rows"
    by simp
  ultimately show ?thesis
    using assms by (simp add: map_of_inject_set)
qed

lemma project_sums:
  "sum_list (map p_amount (filter (\<lambda>d. p_type d = k) (map project ts)))
     = sum_list (map amount (filter (\<lambda>t. ttype t = k) ts))"
  by (induction ts) (simp_all add: project_def)


lemma month_keys:
  "(y, m) \<in> (\<lambda>d. (p_year d, p_month d)) ` set (map project (filter (\<lambda>t. userId t = uid \<and> start \<le> date t) s)) \<longleftrightarrow>
      (\<exists>t\<in>set s. userId t = uid \<and> start \<le> date t
              \<and> YearFromTime (date t) = y \<and> MonthFromTime (date t) + 1 = m)"
proof
  assume "(y, m) \<in> (\<lambda>d. (p_year d, p_month d))
      ` set (map project (filter (\<lambda>t. userId t = uid \<and> start \<le> date t) s))"
  then show "\<exists>t\<in>set s. userId t = uid \<and> start \<le> date t
              \<and> YearFromTime (date t) = y \<and> MonthFromTime (date t) + 1 = m"
    by (auto simp: project_def)
next
  assume "\<exists>t\<in>set s. userId t = uid \<and> start \<le> date t
              \<and> YearFromTime (date t) = y \<and> MonthFromTime (date t) + 1 = m"
  then obtain t where t: "t \<in> set s" "userId t = uid" "start \<le> date t"
      "YearFromTime (date t) = y" "MonthFromTime (date t) + 1 = m"
    by blast
  then have "project t \<in> set (map project (filter (\<lambda>t. userId t = uid \<and> start \<le> date t) s))"
    by simp
  moreover have "(y, m) = (p_year (project t), p_month (project t))"
    using t by (simp add: project_def)
  ultimately show "(y, m) \<in> (\<lambda>d. (p_year d, p_month d))
      ` set (map project (filter (\<lambda>t. userId t = uid \<and> start \<le> date t) s))"
    by (rule rev_image_eqI)
qed

lemma month_group:
  "filter (\<lambda>d. (p_year d, p_month d) = (y, m)) (map project (filter (\<lambda>t. userId t = uid \<and> start \<le> date t) s))
      = map project (filter (\<lambda>t. userId t = uid \<and> start \<le> date t
                           \<and> YearFromTime (date t) = y \<and> MonthFromTime (date t) + 1 = m) s)"
  by (induction s) (simp_all add: project_def)



lemma sorted_rows:
  "sorted (map fst (sort_key fst rows))"
  by (rule sorted_sort_key)

lemma distinct_rows:
  assumes "distinct (map fst rows)"
  shows "distinct (map fst (sort_key fst rows))"
proof -
  have "mset (map fst (sort_key fst rows)) = mset (map fst rows)"
    by simp
  then show ?thesis
    using assms by (metis mset_eq_imp_distinct_iff)
qed


lemma monthly_lookup_unsorted:
  "map_of (group_by (\<lambda>d. (p_year d, p_month d)) \<lparr> income = 0, expense = 0 \<rparr> monthlyAcc
            (map project (filter (\<lambda>t. userId t = uid \<and> start \<le> date t) s))) (y, m)
     = (if \<exists>t\<in>set s. userId t = uid \<and> start \<le> date t
              \<and> YearFromTime (date t) = y \<and> MonthFromTime (date t) + 1 = m
        then Some \<lparr> income = sum_list (map amount (filter (\<lambda>t. ttype t = Income)
                        (filter (\<lambda>t. userId t = uid \<and> start \<le> date t
                           \<and> YearFromTime (date t) = y \<and> MonthFromTime (date t) + 1 = m) s))),
                    expense = sum_list (map amount (filter (\<lambda>t. ttype t = Expense)
                        (filter (\<lambda>t. userId t = uid \<and> start \<le> date t
                           \<and> YearFromTime (date t) = y \<and> MonthFromTime (date t) + 1 = m) s))) \<rparr>
        else None)"
  unfolding map_of_group_by month_keys month_group foldl_monthlyAcc project_sums
  by auto


text \<open>
  What the monthly pipeline computes for a window starting at \<open>start\<close>: rows sorted
  ascending by (year, month) with distinct keys; a row for (y, m) exactly when some
  document of the owner in the window falls in that month; its \<open>income\<close> and \<open>expense\<close>
  are the sums of the amounts of those documents by kind.
\<close>

lemma monthly_series:
  "sorted (map fst (monthlyPipeline start s uid))
   \<and> distinct (map fst (monthlyPipeline start s uid))
   \<and> map_of (monthlyPipeline start s uid) (y, m) =
       (if \<exists>t\<in>set s. userId t = uid \<and> start \<le> date t
              \<and> YearFromTime (date t) = y \<and> MonthFromTime (date t) + 1 = m
        then Some \<lparr> income = sum_list (map amount (filter (\<lambda>t. ttype t = Income)
                        (filter (\<lambda>t. userId t = uid \<and> start \<le> date t
                           \<and> YearFromTime (date t) = y \<and> MonthFromTime (date t) + 1 = m) s))),
                    expense = sum_list (map amount (filter (\<lambda>t. ttype t = Expense)
                        (filter (\<lambda>t. userId t = uid \<and> start \<le> date t
                           \<and> YearFromTime (date t) = y \<and> MonthFromTime (date t) + 1 = m) s))) \<rparr>
        else None)"
  unfolding monthlyPipeline_def
proof (intro conjI)
  let ?G = "group_by (\<lambda>d. (p_year d, p_month d)) \<lparr> income = 0, expense = 0 \<rparr> monthlyAcc
              (map project (filter (\<lambda>t. userId t = uid \<and> start \<le> date t) s))"
  have dG: "distinct (map fst ?G)" by (rule distinct_group_by)
  show "sorted (map fst (sort_key fst ?G))" by (rule sorted_rows)
  show "distinct (map fst (sort_key fst ?G))" using dG by (rule distinct_rows)
  show "map_of (sort_key fst ?G) (y, m) =
       (if \<exists>t\<in>set s. userId t = uid \<and> start \<le> date t
              \<and> YearFromTime (date t) = y \<and> MonthFromTime (date t) + 1 = m
        then Some \<lparr> income = sum_list (map amount (filter (\<lambda>t. ttype t = Income)
                        (filter (\<lambda>t. userId t = uid \<and> start \<le> date t
                           \<and> YearFromTime (date t) = y \<and> MonthFromTime (date t) + 1 = m) s))),
                    expense = sum_list (map amount (filter (\<lambda>t. ttype t = Expense)
                        (filter (\<lambda>t. userId t = uid \<and> start \<le> date t
                           \<and> YearFromTime (date t) = y \<and> MonthFromTime (date t) + 1 = m) s))) \<rparr>
        else None)"
    unfolding map_of_sort_key_fst [OF dG] by (rule monthly_lookup_unsorted)
qed


theorem totals_add_up_witness:
  "totalIncome (getSummary 1760529600000 ledger bob) = 0
   \<and> totalExpense (getSummary 1760529600000 ledger bob) = 900
   \<and> totalIncome (getSummary 1760529600000 ledger bob)
       + totalExpense (getSummary 1760529600000 ledger bob) = 900
   \<and> totalExpense (getSummary 1760529600000 [salary] alice) = 0
   \<and> totalIncome (getSummary 1760529600000 [] alice)
       + totalExpense (getSummary 1760529600000 [] alice) = 0"
proof -
  have h: "\<forall>t\<in>set ledger. userId t = bob \<longrightarrow> ttype t \<noteq> Income"
    by (simp add: sample_defs)
  have h': "\<forall>t\<in>set [salary]. userId t = alice \<longrightarrow> ttype t \<noteq> Expense"
    by (simp add: sample_defs)
  have a: "totalIncome (getSummary 1760529600000 ledger bob) = 0"
    by (rule totals_add_up [of 1760529600000 ledger bob,
          THEN conjunct2, THEN conjunct2, THEN conjunct2, THEN conjunct1, THEN mp, OF h])
  have "totalExpense (getSummary 1760529600000 ledger bob)
      = sum_list (map amount (filter (\<lambda>t. userId t = bob \<and> ttype t = Expense) ledger))"
    by (rule totals_add_up [of 1760529600000 ledger bob,
          THEN conjunct2, THEN conjunct2, THEN conjunct1])
  then have b: "totalExpense (getSummary 1760529600000 ledger bob) = 900"
    by (simp add: sample_defs)
  have c: "totalExpense (getSummary 1760529600000 [salary] alice) = 0"
    by (rule totals_add_up [of 1760529600000 "[salary]" alice,
          THEN conjunct2, THEN conjunct2, THEN conjunct2, THEN conjunct2, THEN mp, OF h'])
  have e: "totalIncome (getSummary 1760529600000 [] alice)
       + totalExpense (getSummary 1760529600000 [] alice)
      = sum_list (map amount (filter (\<lambda>t. userId t = alice) ([]::store)))"
    by (rule totals_add_up [of 1760529600000 "[]" alice, THEN conjunct1])
  have z: "sum_list (map amount (filter (\<lambda>t. userId t = alice) ([]::store))) = 0"
    by simp
  have d: "totalIncome (getSummary 1760529600000 [] alice)
       + totalExpense (getSummary 1760529600000 [] alice) = 0"
    by (rule trans [OF e z])
  from a b c d show ?thesis by simp
qed

text \<open>
  C4 fails in the code. The monthly window of the summary starts at midnight of the day
  five months before now, not six. Requested on 15 October 2025 at noon, the window
  starts on 15 May 2025; six months back is 15 April 2025. Alice's bonus of 1 May 2025
  lies after the latter and before the former: it is within the trailing six months and
  is left out of the monthly series.
\<close>

theorem monthly_window_five_months:
  "startDate 1760529600000 = 1747267200000
   \<and> setHours0 (setMonth 1760529600000 (MonthFromTime 1760529600000 - 6)) = 1744675200000
   \<and> userId bonus = alice
   \<and> 1744675200000 \<le> date bonus
   \<and> date bonus < startDate 1760529600000
   \<and> s_monthly (getSummary 1760529600000 [bonus] alice) = []"
  by code_simp

end
